theory Spec2Isabelle
  imports Main "HOL-Library.Word" "HOL-Library.Sublist"
begin

section \<open>Python strings and bytes\<close>

text \<open>
  A Python \<open>str\<close> is a sequence of Unicode code points, a \<open>bytes\<close> object a sequence of
  octets. \<open>str.encode()\<close> is UTF-8 with the strict error handler (a surrogate code point
  raises \<open>UnicodeEncodeError\<close>); \<open>bytes.decode(errors='ignore')\<close> is UTF-8 where every
  ill-formed sequence is dropped.  Code points of a \<open>str\<close> are below \<open>0x110000\<close>.
\<close>

type_synonym byte = "8 word"
type_synonym pystr = "nat list"

definition ascii :: "string \<Rightarrow> pystr" where
  "ascii s = map of_char s"

definition bytes_lit :: "string \<Rightarrow> byte list" where
  "bytes_lit s = map of_char s"

text \<open>The exception classes the serial exchange can meet.  In pyserial
  \<open>SerialTimeoutException\<close> derives from \<open>SerialException\<close>.  \<open>OtherException\<close> stands for
  any class that derives from \<open>Exception\<close> outside the serial hierarchy.
  \<open>KeyboardInterrupt\<close> stands for the classes that derive from \<open>BaseException\<close> only
  (\<open>KeyboardInterrupt\<close>, \<open>SystemExit\<close>): an \<open>except Exception\<close> clause does not catch them.\<close>

datatype pyexc =
  SerialException | SerialTimeoutException | UnicodeEncodeError | OtherException
  | KeyboardInterrupt

fun isinstance_SerialException :: "pyexc \<Rightarrow> bool" where
  "isinstance_SerialException SerialException = True"
| "isinstance_SerialException SerialTimeoutException = True"
| "isinstance_SerialException UnicodeEncodeError = False"
| "isinstance_SerialException OtherException = False"
| "isinstance_SerialException KeyboardInterrupt = False"

fun isinstance_Exception :: "pyexc \<Rightarrow> bool" where
  "isinstance_Exception SerialException = True"
| "isinstance_Exception SerialTimeoutException = True"
| "isinstance_Exception UnicodeEncodeError = True"
| "isinstance_Exception OtherException = True"
| "isinstance_Exception KeyboardInterrupt = False"

definition utf8_encode_char :: "nat \<Rightarrow> pyexc + byte list" where
  "utf8_encode_char c =
     (if c < 0x80 then Inr [of_nat c]
      else if c < 0x800 then Inr [of_nat (0xC0 + c div 64), of_nat (0x80 + c mod 64)]
      else if c < 0x10000 then
        (if 0xD800 \<le> c \<and> c \<le> 0xDFFF then Inl UnicodeEncodeError
         else Inr [of_nat (0xE0 + c div 4096), of_nat (0x80 + (c div 64) mod 64),
                   of_nat (0x80 + c mod 64)])
      else Inr [of_nat (0xF0 + c div 262144), of_nat (0x80 + (c div 4096) mod 64),
                of_nat (0x80 + (c div 64) mod 64), of_nat (0x80 + c mod 64)])"

fun str_encode :: "pystr \<Rightarrow> pyexc + byte list" where
  "str_encode [] = Inr []"
| "str_encode (c # cs) =
     (case utf8_encode_char c of
        Inl e \<Rightarrow> Inl e
      | Inr bs \<Rightarrow> (case str_encode cs of Inl e \<Rightarrow> Inl e | Inr rest \<Rightarrow> Inr (bs @ rest)))"

definition is_continuation :: "byte \<Rightarrow> bool" where
  "is_continuation b = (0x80 \<le> b \<and> b < 0xC0)"

definition low_bits :: "byte \<Rightarrow> nat \<Rightarrow> nat" where
  "low_bits b m = unat b mod m"

fun bytes_decode_ignore :: "byte list \<Rightarrow> pystr" where
  "bytes_decode_ignore [] = []"
| "bytes_decode_ignore (ch # rest) =
     (if ch < 0x80 then unat ch # bytes_decode_ignore rest
      else if ch < 0xC2 then bytes_decode_ignore rest
      else if ch < 0xE0 then
        (case rest of
           [] \<Rightarrow> []
         | ch2 # r2 \<Rightarrow>
             if \<not> is_continuation ch2 then bytes_decode_ignore (ch2 # r2)
             else (low_bits ch 32 * 64 + low_bits ch2 64) # bytes_decode_ignore r2)
      else if ch < 0xF0 then
        (case rest of
           [] \<Rightarrow> []
         | ch2 # r2 \<Rightarrow>
             if \<not> is_continuation ch2 \<or> (ch = 0xE0 \<and> ch2 < 0xA0) \<or> (ch = 0xED \<and> 0xA0 \<le> ch2)
             then bytes_decode_ignore (ch2 # r2)
             else (case r2 of
                     [] \<Rightarrow> []
                   | ch3 # r3 \<Rightarrow>
                       if \<not> is_continuation ch3 then bytes_decode_ignore (ch3 # r3)
                       else (low_bits ch 16 * 4096 + low_bits ch2 64 * 64 + low_bits ch3 64)
                            # bytes_decode_ignore r3))
      else if ch < 0xF5 then
        (case rest of
           [] \<Rightarrow> []
         | ch2 # r2 \<Rightarrow>
             if \<not> is_continuation ch2 \<or> (ch = 0xF0 \<and> ch2 < 0x90) \<or> (ch = 0xF4 \<and> 0x90 \<le> ch2)
             then bytes_decode_ignore (ch2 # r2)
             else (case r2 of
                     [] \<Rightarrow> []
                   | ch3 # r3 \<Rightarrow>
                       if \<not> is_continuation ch3 then bytes_decode_ignore (ch3 # r3)
                       else (case r3 of
                               [] \<Rightarrow> []
                             | ch4 # r4 \<Rightarrow>
                                 if \<not> is_continuation ch4 then bytes_decode_ignore (ch4 # r4)
                                 else (low_bits ch 8 * 262144 + low_bits ch2 64 * 4096
                                       + low_bits ch3 64 * 64 + low_bits ch4 64)
                                      # bytes_decode_ignore r4)))
      else bytes_decode_ignore rest)"

text \<open>Python's \<open>needle in haystack\<close> on strings: \<open>needle\<close> occurs as a contiguous run.\<close>

fun str_contains :: "'a list \<Rightarrow> 'a list \<Rightarrow> bool" where
  "str_contains [] needle = (needle = [])"
| "str_contains (x # xs) needle = (prefix needle (x # xs) \<or> str_contains xs needle)"


section \<open>The serial link and the AT exchange (core/sms/services.py)\<close>

text \<open>
  What the function does to the outside world is recorded as a trace of events, in the
  order in which the statements run.  Sleeps are in milliseconds.  A log record keeps the
  values interpolated into the message rather than the formatted text.
\<close>

datatype log_record =
    SmsEnvoye pystr            \<comment> \<open>info: "SMS envoye avec succes au {numero}"\<close>
  | EchecEnvoi pystr           \<comment> \<open>error: "Echec de l'envoi. Reponse module : {reponse}"\<close>
  | ModuleInaccessible pyexc   \<comment> \<open>error: "Impossible d'acceder au module GSM sur {PORT}: {e}"\<close>
  | ErreurImprevue pyexc       \<comment> \<open>error: "Erreur imprevue dans GSMHardwareService: {e}"\<close>

datatype event =
    EvOpen pystr nat nat       \<comment> \<open>\<open>serial.Serial(port, baud, timeout=...)\<close> succeeded\<close>
  | EvSleep nat
  | EvWrite "byte list"
  | EvReadAll "byte list"
  | EvClose
  | EvLogInfo log_record
  | EvLogError log_record
  | EvPrintModeTest pystr pystr \<comment> \<open>the \<open>[MODE TEST]\<close> line with \<open>numero\<close> and \<open>message\<close>\<close>

text \<open>
  The local variable \<open>ser\<close>: \<open>None\<close> until the constructor has returned, then a port
  object whose \<open>is_open\<close> flag is the boolean.
\<close>

record hw_state =
  trace :: "event list"
  ser :: "bool option"

text \<open>
  How the hardware answers during one call: the outcome of the constructor, of the
  \<open>k\<close>-th \<open>write\<close> (counted from 0) and of \<open>read_all\<close>.  Logging (whose handlers keep
  their own errors), \<open>time.sleep\<close> and \<open>close\<close> are taken not to raise.
\<close>

record serial_env =
  open_result :: "pyexc option"
  write_result :: "nat \<Rightarrow> pyexc option"
  read_all_result :: "pyexc + byte list"

type_synonym 'a io = "hw_state \<Rightarrow> (pyexc + 'a) \<times> hw_state"

definition io_return :: "'a \<Rightarrow> 'a io" where
  "io_return v s = (Inr v, s)"

definition io_bind :: "'a io \<Rightarrow> ('a \<Rightarrow> 'b io) \<Rightarrow> 'b io" where
  "io_bind m k s = (case m s of (Inl e, s') \<Rightarrow> (Inl e, s') | (Inr v, s') \<Rightarrow> k v s')"

definition io_then :: "unit io \<Rightarrow> 'b io \<Rightarrow> 'b io" where
  "io_then m k = io_bind m (\<lambda>_. k)"

definition emit :: "event \<Rightarrow> unit io" where
  "emit ev s = (Inr (), s\<lparr>trace := trace s @ [ev]\<rparr>)"

definition PORT :: pystr where
  "PORT = ascii ''/dev/ttyUSB0''"

definition BAUD_RATE :: nat where
  "BAUD_RATE = 9600"

definition serial_Serial :: "serial_env \<Rightarrow> pystr \<Rightarrow> nat \<Rightarrow> nat \<Rightarrow> unit io" where
  "serial_Serial env port baud tmo s =
     (case open_result env of
        Some e \<Rightarrow> (Inl e, s)
      | None \<Rightarrow> (Inr (), s\<lparr>trace := trace s @ [EvOpen port baud tmo], ser := Some True\<rparr>))"

definition time_sleep :: "nat \<Rightarrow> unit io" where
  "time_sleep ms = emit (EvSleep ms)"

definition ser_write :: "serial_env \<Rightarrow> nat \<Rightarrow> byte list \<Rightarrow> unit io" where
  "ser_write env k bs s =
     (case write_result env k of
        Some e \<Rightarrow> (Inl e, s)
      | None \<Rightarrow> emit (EvWrite bs) s)"

definition ser_read_all :: "serial_env \<Rightarrow> (byte list) io" where
  "ser_read_all env s =
     (case read_all_result env of
        Inl e \<Rightarrow> (Inl e, s)
      | Inr bs \<Rightarrow> (Inr bs, s\<lparr>trace := trace s @ [EvReadAll bs]\<rparr>))"

definition encode :: "pystr \<Rightarrow> (byte list) io" where
  "encode t s = (case str_encode t of Inl e \<Rightarrow> (Inl e, s) | Inr bs \<Rightarrow> (Inr bs, s))"

definition logger_info :: "log_record \<Rightarrow> unit io" where
  "logger_info r = emit (EvLogInfo r)"

definition logger_error :: "log_record \<Rightarrow> unit io" where
  "logger_error r = emit (EvLogError r)"

text \<open>The f-string \<open>f'AT+CMGS="{numero}"\r'\<close>.\<close>

definition cmd_numero :: "pystr \<Rightarrow> pystr" where
  "cmd_numero numero = ascii ''AT+CMGS='' @ [0x22] @ numero @ [0x22, 0x0D]"

definition token_OK :: pystr where
  "token_OK = ascii ''OK''"

definition token_CMGS :: pystr where
  "token_CMGS = ascii ''+CMGS:''"

text \<open>The body of the \<open>try\<close> block, statement by statement.\<close>

definition try_body :: "serial_env \<Rightarrow> pystr \<Rightarrow> pystr \<Rightarrow> bool io" where
  "try_body env numero message =
     io_then (serial_Serial env PORT BAUD_RATE 5)
    (io_then (time_sleep 1000)
    (io_then (ser_write env 0 (bytes_lit ''AT'' @ [0x0D]))
    (io_then (time_sleep 500)
    (io_then (ser_write env 1 (bytes_lit ''AT+CMGF=1'' @ [0x0D]))
    (io_then (time_sleep 500)
    (io_bind (encode (cmd_numero numero)) (\<lambda>cmd.
     io_then (ser_write env 2 cmd)
    (io_then (time_sleep 500)
    (io_bind (encode message) (\<lambda>body.
     io_then (ser_write env 3 body)
    (io_then (ser_write env 4 [26])
    (io_then (time_sleep 3000)
    (io_bind (ser_read_all env) (\<lambda>raw.
       let reponse = bytes_decode_ignore raw in
       if str_contains reponse token_OK \<or> str_contains reponse token_CMGS
       then io_then (logger_info (SmsEnvoye numero)) (io_return True)
       else io_then (logger_error (EchecEnvoi reponse)) (io_return False)))))))))))))))"

text \<open>
  The text of the \<open>print\<close> in the first handler,
  \<open>f"\n[MODE TEST] Materiel absent sur {cls.PORT}. Simulation SMS vers {numero} : {message}\n"\<close>
  (the second letter of the third word is U+00E9 in the source).
\<close>

definition mode_test_line :: "pystr \<Rightarrow> pystr \<Rightarrow> pystr" where
  "mode_test_line numero message =
     [0x0A] @ ascii ''[MODE TEST] Mat'' @ [0xE9] @ ascii ''riel absent sur '' @ PORT
     @ ascii ''. Simulation SMS vers '' @ numero @ ascii '' : '' @ message @ [0x0A]"

text \<open>
  \<open>print\<close> on a standard output in UTF-8 with the strict error handler: the text is encoded
  as a whole, so a text that cannot be encoded (a lone surrogate in \<open>numero\<close> or \<open>message\<close>)
  raises \<open>UnicodeEncodeError\<close> and nothing is printed.
\<close>

definition print_mode_test :: "pystr \<Rightarrow> pystr \<Rightarrow> unit io" where
  "print_mode_test numero message s =
     (case str_encode (mode_test_line numero message) of
        Inl e \<Rightarrow> (Inl e, s)
      | Inr _ \<Rightarrow> emit (EvPrintModeTest numero message) s)"

text \<open>
  The two \<open>except\<close> clauses, in the order of the source, and the \<open>finally\<close> block.  An
  exception raised inside a handler is not caught by the clause that follows it: it leaves
  the function, as does an exception that no clause matches.  The \<open>finally\<close> block runs in
  every case.
\<close>

definition except_clauses :: "pystr \<Rightarrow> pystr \<Rightarrow> pyexc \<Rightarrow> bool io" where
  "except_clauses numero message e =
     (if isinstance_SerialException e then
        io_then (logger_error (ModuleInaccessible e))
       (io_then (print_mode_test numero message) (io_return True))
      else if isinstance_Exception e then
        io_then (logger_error (ErreurImprevue e)) (io_return False)
      else (\<lambda>s. (Inl e, s)))"

definition finally_block :: "hw_state \<Rightarrow> hw_state" where
  "finally_block s =
     (case ser s of
        Some True \<Rightarrow> s\<lparr>trace := trace s @ [EvClose], ser := Some False\<rparr>
      | _ \<Rightarrow> s)"

definition envoyer_sms_physique ::
    "serial_env \<Rightarrow> pystr \<Rightarrow> pystr \<Rightarrow> (pyexc + bool) \<times> hw_state" where
  "envoyer_sms_physique env numero message =
     (case try_body env numero message \<lparr>trace = [], ser = None\<rparr> of
        (Inr b, s) \<Rightarrow> (Inr b, finally_block s)
      | (Inl e, s) \<Rightarrow>
          (case except_clauses numero message e s of
             (r, s') \<Rightarrow> (r, finally_block s')))"

text \<open>Observations on a trace: the byte strings written, in order, and the open events.\<close>

fun writes_of :: "event list \<Rightarrow> byte list list" where
  "writes_of [] = []"
| "writes_of (EvWrite bs # evs) = bs # writes_of evs"
| "writes_of (_ # evs) = writes_of evs"

fun is_EvOpen :: "event \<Rightarrow> bool" where
  "is_EvOpen (EvOpen _ _ _) = True"
| "is_EvOpen _ = False"

text \<open>The events of an exchange up to and including the three-second wait, when the port
  opens and nothing fails before the read.\<close>

definition exchange_prefix :: "byte list \<Rightarrow> byte list \<Rightarrow> event list" where
  "exchange_prefix cmd body =
     [EvOpen PORT BAUD_RATE 5, EvSleep 1000, EvWrite (bytes_lit ''AT'' @ [0x0D]), EvSleep 500,
      EvWrite (bytes_lit ''AT+CMGF=1'' @ [0x0D]), EvSleep 500, EvWrite cmd, EvSleep 500,
      EvWrite body, EvWrite [26], EvSleep 3000]"

section \<open>Persisted records (apps/canes, apps/contacts, core/sms/models.py)\<close>

text \<open>
  The tables are lists of rows.  Of each Django model the fields that the views and the task
  below read or write are kept; timestamps are natural numbers.
\<close>

record canne =
  canne_id :: int
  numero_gsm :: pystr
  derniere_communication :: "nat option"

record contact =
  contact_id :: int
  contact_canne :: int
  nom :: pystr
  telephone :: pystr
  type_contact :: pystr
  id_microcontroleur :: "int option"
  synchro_avec_canne :: bool

datatype sms_statut = EN_ATTENTE | ENVOYE | ECHEC

record sms_log =
  log_canne :: int
  contenu :: pystr
  telephone_destinataire :: pystr
  statut :: sms_statut
  erreur_details :: "pystr option"

record database =
  cannes :: "canne list"
  contacts :: "contact list"
  sms_logs :: "sms_log list"
  next_contact_id :: int

text \<open>\<open>Canne.objects.get(id=canne_id)\<close>: \<open>None\<close> stands for \<open>Canne.DoesNotExist\<close>.\<close>

definition Canne_get :: "database \<Rightarrow> int \<Rightarrow> canne option" where
  "Canne_get db cid = find (\<lambda>c. canne_id c = cid) (cannes db)"


section \<open>The send task and its retries (core/sms/tasks.py)\<close>

datatype task_result = Status_success | Status_failed_not_found

text \<open>\<open>GSMEchoue\<close> is \<open>Exception("Le service GSM a echoue.")\<close>; \<open>ServiceRaised\<close> wraps an
  exception that comes out of the hardware service.  The clause \<open>except Exception\<close> of the
  task retries on the first and on the second when it derives from \<open>Exception\<close>; any other
  exception leaves the task and ends the job.\<close>

datatype task_exc = GSMEchoue | ServiceRaised pyexc

text \<open>
  One execution of the task body ends in one of three ways: it returns a dictionary, it
  raises Celery's \<open>Retry\<close> after a new execution has been scheduled (with the new value of
  \<open>request.retries\<close> and the countdown in seconds), or it raises an exception that ends the
  job.
\<close>

datatype attempt = Returned task_result | RetryScheduled nat nat | Failed task_exc

text \<open>The decorator's \<open>max_retries=3\<close>.\<close>

definition max_retries :: nat where
  "max_retries = 3"

text \<open>
  \<open>self.retry(exc=e, countdown=...)\<close> of a bound Celery task running in a worker:
  \<open>retries = request.retries + 1\<close>; when \<open>retries > max_retries\<close> the given exception is
  raised, otherwise the task is sent again with \<open>retries\<close> and the countdown, and \<open>Retry\<close>
  is raised.
\<close>

definition self_retry :: "nat \<Rightarrow> task_exc \<Rightarrow> nat \<Rightarrow> attempt" where
  "self_retry request_retries exc countdown =
     (let retries = request_retries + 1
      in if retries > max_retries then Failed exc else RetryScheduled retries countdown)"

text \<open>
  The task body.  Its first argument is \<open>self.request.retries\<close>.  It returns the way the
  execution ended, the database and the hardware events of this execution.
\<close>

definition task_envoyer_sms ::
    "nat \<Rightarrow> database \<Rightarrow> serial_env \<Rightarrow> int \<Rightarrow> pystr \<Rightarrow> attempt \<times> database \<times> event list" where
  "task_envoyer_sms request_retries db env cid contenu_sms =
     (case Canne_get db cid of
        None \<Rightarrow> (Returned Status_failed_not_found, db, [])
      | Some canne \<Rightarrow>
          (let numero_destination = numero_gsm canne
           in case envoyer_sms_physique env numero_destination contenu_sms of
                (Inr success, s) \<Rightarrow>
                  if success then (Returned Status_success, db, trace s)
                  else (self_retry request_retries GSMEchoue 60, db, trace s)
              | (Inl e, s) \<Rightarrow>
                  if isinstance_Exception e
                  then (self_retry request_retries (ServiceRaised e) 60, db, trace s)
                  else (Failed (ServiceRaised e), db, trace s)))"

text \<open>
  A job from submission to its end: the worker runs the body, and runs it again for every
  scheduled retry.  \<open>envs r\<close> is how the hardware behaves during the execution whose
  \<open>request.retries\<close> is \<open>r\<close>.
\<close>

record job_outcome =
  executions :: nat
  countdowns :: "nat list"
  final :: attempt
  final_db :: database
  hw_events :: "event list"

function run_job ::
    "nat \<Rightarrow> database \<Rightarrow> (nat \<Rightarrow> serial_env) \<Rightarrow> int \<Rightarrow> pystr \<Rightarrow> job_outcome" where
  "run_job request_retries db envs cid contenu_sms =
     (case task_envoyer_sms request_retries db (envs request_retries) cid contenu_sms of
        (RetryScheduled retries countdown, db', evs) \<Rightarrow>
          (let rest = run_job retries db' envs cid contenu_sms
           in rest\<lparr>executions := Suc (executions rest),
                   countdowns := countdown # countdowns rest,
                   hw_events := evs @ hw_events rest\<rparr>)
      | (outcome, db', evs) \<Rightarrow>
          \<lparr>executions = 1, countdowns = [], final = outcome, final_db = db', hw_events = evs\<rparr>)"
  by pat_completeness auto
termination
  apply (relation "measure (\<lambda>(r, db, envs, cid, c). Suc max_retries - r)")
   apply simp
  apply (auto simp: task_envoyer_sms_def self_retry_def Let_def max_retries_def
      split: option.splits prod.splits sum.splits if_splits)
  done

declare run_job.simps [simp del]

definition submit :: "database \<Rightarrow> (nat \<Rightarrow> serial_env) \<Rightarrow> int \<Rightarrow> pystr \<Rightarrow> job_outcome" where
  "submit db envs cid contenu_sms = run_job 0 db envs cid contenu_sms"


section \<open>Contact slots (apps/contacts/views.py)\<close>

text \<open>The bodies of the responses, with the messages of the source named by a tag.\<close>

datatype detail =
    CanneNonTrouvee          \<comment> \<open>"Canne non trouvee."\<close>
  | ContactExisteDeja        \<comment> \<open>"Ce contact existe deja pour cette canne."\<close>
  | MemoirePleine            \<comment> \<open>"Memoire de la canne pleine (5 max)."\<close>
  | SuppressionRefusee       \<comment> \<open>"Autorisation refusee. Seul le SUPER_ADMIN peut supprimer."\<close>
  | ContactNonTrouve         \<comment> \<open>the 404 of \<open>get_object_or_404\<close>\<close>

datatype body =
    Detail detail
  | Registered int int            \<comment> \<open>\<open>id\<close> and \<open>index\<close> of the new contact\<close>
  | Deleted "int option"          \<comment> \<open>\<open>index_libere\<close>\<close>
  | ServerError                   \<comment> \<open>an exception left the view: the transaction is rolled back\<close>

datatype http_response = Response nat body

text \<open>
  The value of \<open>request.data.get('nom', 'Sans nom')\<close> for a request body that is an object:
  the key is absent, it is present with the value null, or it is present with a value
  whose text is given.  The default applies to the absent key only.
\<close>

datatype nom_field = NomAbsent | NomNull | NomValue pystr

fun nom_of_request :: "nom_field \<Rightarrow> pystr option" where
  "nom_of_request NomAbsent = Some (ascii ''Sans nom'')"
| "nom_of_request NomNull = None"
| "nom_of_request (NomValue v) = Some v"

text \<open>
  What the configured PostgreSQL database accepts.  A text can be sent to the server, as the
  parameter of a query or as a column value, when it has no NUL character and no lone
  surrogate (it travels in UTF-8).  A character column moreover refuses a text longer than
  its \<open>max_length\<close>, counted in characters.  The columns of a contact are \<open>nom\<close> (100, not
  null), \<open>telephone\<close> (20) and \<open>type_contact\<close> (20).
\<close>

definition pg_param :: "pystr \<Rightarrow> bool" where
  "pg_param t = list_all (\<lambda>c. c \<noteq> 0 \<and> \<not> (0xD800 \<le> c \<and> c \<le> 0xDFFF)) t"

definition pg_text :: "nat \<Rightarrow> pystr \<Rightarrow> bool" where
  "pg_text max_length t = (length t \<le> max_length \<and> pg_param t)"

definition row_accepted :: "pystr option \<Rightarrow> pystr \<Rightarrow> pystr \<Rightarrow> bool" where
  "row_accepted nom_contact tel role_upper =
     ((case nom_contact of None \<Rightarrow> False | Some n \<Rightarrow> pg_text 100 n)
      \<and> pg_text 20 tel \<and> pg_text 20 role_upper)"

text \<open>
  \<open>Contact.objects.create(...)\<close> under \<open>unique_together = [['canne', 'telephone']]\<close>: the
  insert raises when the database does not accept a column value or when a row with the
  same device and phone number exists; otherwise the row gets the next primary key.
\<close>

definition Contact_create ::
    "database \<Rightarrow> int \<Rightarrow> pystr option \<Rightarrow> pystr \<Rightarrow> pystr \<Rightarrow> int \<Rightarrow> bool
      \<Rightarrow> unit + contact \<times> database" where
  "Contact_create db cid nom_contact tel role_upper idx synchro =
     (case nom_contact of
        None \<Rightarrow> Inl ()
      | Some n \<Rightarrow>
          if \<not> row_accepted nom_contact tel role_upper then Inl ()
          else if list_ex (\<lambda>c. contact_canne c = cid \<and> telephone c = tel) (contacts db)
          then Inl ()
          else
            (let new = \<lparr>contact_id = next_contact_id db, contact_canne = cid, nom = n,
                        telephone = tel, type_contact = role_upper,
                        id_microcontroleur = Some idx, synchro_avec_canne = synchro\<rparr>
             in Inr (new, db\<lparr>contacts := contacts db @ [new],
                             next_contact_id := next_contact_id db + 1\<rparr>)))"

text \<open>\<open>next((i for i in range(1, 6) if i not in indices_occupes), None)\<close>, where
  \<open>indices_occupes\<close> are the \<open>id_microcontroleur\<close> values (possibly null) of the device's
  contacts.\<close>

definition index_libre :: "int option list \<Rightarrow> int option" where
  "index_libre indices_occupes = find (\<lambda>i. Some i \<notin> set indices_occupes) [1..5]"

text \<open>
  \<open>RegisterContactViaSMSAPIView.post\<close>, for a request whose body is an object.
  \<open>nom_req\<close> is the entry \<open>nom\<close> of the body and \<open>role_upper\<close> the value of
  \<open>role.upper()\<close>.  The view runs in one transaction: when a query raises, the answer is a
  server error and nothing is stored.  The existence query of step 2 raises when
  \<open>numero_contact\<close> cannot be sent to the server; a number that cannot be sent is the number
  of no stored contact, so this case is placed after the test for an existing contact.
\<close>

definition register_contact_post ::
    "database \<Rightarrow> nom_field \<Rightarrow> int \<Rightarrow> pystr \<Rightarrow> pystr \<Rightarrow> http_response \<times> database" where
  "register_contact_post db nom_req cid role_upper numero_contact =
     (let nom_contact = nom_of_request nom_req
      in case Canne_get db cid of
           None \<Rightarrow> (Response 404 (Detail CanneNonTrouvee), db)
         | Some canne \<Rightarrow>
             if list_ex (\<lambda>c. contact_canne c = canne_id canne \<and> telephone c = numero_contact)
                  (contacts db)
             then (Response 400 (Detail ContactExisteDeja), db)
             else if \<not> pg_param numero_contact then (Response 500 ServerError, db)
             else
               (let indices_occupes =
                      map id_microcontroleur
                        (filter (\<lambda>c. contact_canne c = canne_id canne) (contacts db))
                in case index_libre indices_occupes of
                     None \<Rightarrow> (Response 400 (Detail MemoirePleine), db)
                   | Some i \<Rightarrow>
                       (case Contact_create db (canne_id canne) nom_contact numero_contact
                               role_upper i True of
                          Inl _ \<Rightarrow> (Response 500 ServerError, db)
                        | Inr (new, db') \<Rightarrow> (Response 201 (Registered (contact_id new) i), db'))))"

text \<open>\<open>DeleteContactAPIView.post\<close>: the row is looked up by primary key and device, and
  deleted by primary key.\<close>

definition delete_contact_post ::
    "database \<Rightarrow> int \<Rightarrow> int \<Rightarrow> pystr \<Rightarrow> http_response \<times> database" where
  "delete_contact_post db cid contact_pk role =
     (if role \<noteq> ascii ''SUPER_ADMIN'' then (Response 403 (Detail SuppressionRefusee), db)
      else case find (\<lambda>c. contact_id c = contact_pk \<and> contact_canne c = cid) (contacts db) of
             None \<Rightarrow> (Response 404 (Detail ContactNonTrouve), db)
           | Some contact_instance \<Rightarrow>
               (let index_libere = id_microcontroleur contact_instance
                in (Response 200 (Deleted index_libere),
                    db\<lparr>contacts := filter (\<lambda>c. contact_id c \<noteq> contact_id contact_instance)
                                      (contacts db)\<rparr>)))"

text \<open>The indices held by the contacts of a device, and the uniqueness constraint of the
  contact table.\<close>

definition indices_of :: "database \<Rightarrow> int \<Rightarrow> int option list" where
  "indices_of db cid = map id_microcontroleur (filter (\<lambda>c. contact_canne c = cid) (contacts db))"

definition unique_together :: "database \<Rightarrow> bool" where
  "unique_together db = distinct (map (\<lambda>c. (contact_canne c, telephone c)) (contacts db))"


text \<open>Every stored phone number is one that could be sent to the server.\<close>

definition stored_numbers_ok :: "database \<Rightarrow> bool" where
  "stored_numbers_ok db = list_all (\<lambda>c. pg_param (telephone c)) (contacts db)"


section \<open>Concrete hardware behaviours and data\<close>

text \<open>The module answers \<open>+CMGS: 12\<close>; the module stays silent until the read; no device is
  attached to the port; the link breaks at the first write; an unexpected error occurs at the
  second write.\<close>

definition env_confirm :: serial_env where
  "env_confirm = \<lparr>open_result = None, write_result = (\<lambda>k. None),
                  read_all_result = Inr (bytes_lit ''+CMGS: 12'')\<rparr>"

definition env_silent :: serial_env where
  "env_silent = \<lparr>open_result = None, write_result = (\<lambda>k. None), read_all_result = Inr []\<rparr>"

definition env_absent :: serial_env where
  "env_absent = \<lparr>open_result = Some SerialException, write_result = (\<lambda>k. None),
                 read_all_result = Inr []\<rparr>"

definition env_write_fault :: serial_env where
  "env_write_fault = \<lparr>open_result = None,
                      write_result = (\<lambda>k. if k = 0 then Some SerialException else None),
                      read_all_result = Inr []\<rparr>"

definition env_unexpected :: serial_env where
  "env_unexpected = \<lparr>open_result = None,
                     write_result = (\<lambda>k. if k = 1 then Some OtherException else None),
                     read_all_result = Inr []\<rparr>"

text \<open>The module answers the letters O and K with a byte of line noise between them; a
  key interrupt arrives during the first write.\<close>

definition env_noise :: serial_env where
  "env_noise = \<lparr>open_result = None, write_result = (\<lambda>k. None),
                read_all_result = Inr [0x4F, 0xFF, 0x4B]\<rparr>"

definition env_interrupted :: serial_env where
  "env_interrupted = \<lparr>open_result = None,
                      write_result = (\<lambda>k. if k = 0 then Some KeyboardInterrupt else None),
                      read_all_result = Inr []\<rparr>"

text \<open>A message that ends in the lone surrogate U+D800.\<close>

definition message_surrogate :: pystr where
  "message_surrogate = [0x41, 0xD800]"

definition numero_D :: pystr where
  "numero_D = ascii ''+237699999999''"

definition payload_D :: pystr where
  "payload_D = ascii ''CONF:1:FAMILLE:+237600000000''"

definition db_D :: database where
  "db_D = \<lparr>cannes = [\<lparr>canne_id = 1, numero_gsm = numero_D, derniere_communication = None\<rparr>],
           contacts = [], sms_logs = [], next_contact_id = 1\<rparr>"

text \<open>The hardware behaves the same way during every execution of a job.\<close>

definition envs_confirm :: "nat \<Rightarrow> serial_env" where
  "envs_confirm r = env_confirm"

definition envs_silent :: "nat \<Rightarrow> serial_env" where
  "envs_silent r = env_silent"

text \<open>The first execution is rejected, the retries are confirmed.\<close>

definition envs_late :: "nat \<Rightarrow> serial_env" where
  "envs_late r = (if r = 0 then env_silent else env_confirm)"

text \<open>Device 1 with its five slots taken by the contacts A to E, and the same device after
  contact C has been deleted.\<close>

definition contact_of_D :: "int \<Rightarrow> string \<Rightarrow> contact" where
  "contact_of_D k tel =
     \<lparr>contact_id = k, contact_canne = 1, nom = ascii ''Sans nom'', telephone = ascii tel,
      type_contact = ascii ''FAMILLE'', id_microcontroleur = Some k,
      synchro_avec_canne = True\<rparr>"

definition db_full :: database where
  "db_full = db_D\<lparr>contacts := [contact_of_D 1 ''+237600000001'', contact_of_D 2 ''+237600000002'',
                               contact_of_D 3 ''+237600000003'', contact_of_D 4 ''+237600000004'',
                               contact_of_D 5 ''+237600000005''],
                  next_contact_id := 6\<rparr>"

definition db_released :: database where
  "db_released = snd (delete_contact_post db_full 1 3 (ascii ''SUPER_ADMIN''))"


section \<open>Properties of the AT exchange\<close>

lemmas io_defs = io_then_def io_bind_def io_return_def serial_Serial_def time_sleep_def emit_def
  ser_write_def ser_read_all_def encode_def logger_info_def logger_error_def

lemma writes_of_append: "writes_of (xs @ ys) = writes_of xs @ writes_of ys"
  by (induction xs rule: writes_of.induct) simp_all

lemma str_encode_append:
  "str_encode (xs @ ys) =
     (case str_encode xs of Inl e \<Rightarrow> Inl e
      | Inr a \<Rightarrow> (case str_encode ys of Inl e \<Rightarrow> Inl e | Inr b \<Rightarrow> Inr (a @ b)))"
  by (induction xs) (auto split: sum.splits)

lemma str_encode_error: "str_encode t = Inl e \<Longrightarrow> e = UnicodeEncodeError"
  by (induction t arbitrary: e)
     (auto simp: utf8_encode_char_def split: sum.splits if_splits)

lemma mode_test_line_encodes:
  assumes "str_encode numero = Inr nb" and "str_encode message = Inr mb"
  shows "\<exists>bs. str_encode (mode_test_line numero message) = Inr bs"
  using assms
  by (simp add: mode_test_line_def str_encode_append PORT_def ascii_def utf8_encode_char_def)

lemma mode_test_line_fails:
  assumes "str_encode numero = Inl e \<or> str_encode message = Inl e"
  shows "str_encode (mode_test_line numero message) = Inl UnicodeEncodeError"
proof -
  have "\<exists>x. str_encode (mode_test_line numero message) = Inl x"
    using assms
    by (auto simp: mode_test_line_def str_encode_append PORT_def ascii_def utf8_encode_char_def
        split: sum.splits)
  then show ?thesis using str_encode_error by blast
qed

lemma except_clauses_serial:
  assumes "isinstance_SerialException e"
    and "str_encode numero = Inr nb" and "str_encode message = Inr mb"
  shows "except_clauses numero message e s =
       (Inr True, s\<lparr>trace := trace s @ [EvLogError (ModuleInaccessible e),
                                          EvPrintModeTest numero message]\<rparr>)"
proof -
  obtain bs where "str_encode (mode_test_line numero message) = Inr bs"
    using mode_test_line_encodes [OF assms(2,3)] by blast
  with assms(1) show ?thesis
    by (simp add: except_clauses_def print_mode_test_def io_defs)
qed

lemma except_clauses_serial_unprintable:
  assumes "isinstance_SerialException e"
    and "str_encode numero = Inl x \<or> str_encode message = Inl x"
  shows "except_clauses numero message e s =
       (Inl UnicodeEncodeError, s\<lparr>trace := trace s @ [EvLogError (ModuleInaccessible e)]\<rparr>)"
  using assms(1) mode_test_line_fails [OF assms(2)]
  by (simp add: except_clauses_def print_mode_test_def io_defs)

lemma except_clauses_non_serial:
  assumes "\<not> isinstance_SerialException e" and "isinstance_Exception e"
  shows "except_clauses numero message e s =
       (Inr False, s\<lparr>trace := trace s @ [EvLogError (ErreurImprevue e)]\<rparr>)"
  using assms by (simp add: except_clauses_def io_defs)

lemma except_clauses_uncaught:
  assumes "\<not> isinstance_Exception e"
  shows "except_clauses numero message e s = (Inl e, s)"
  using assms by (cases e) (simp_all add: except_clauses_def)

lemma except_clauses_state:
  "\<exists>evs. snd (except_clauses numero message e s) = s\<lparr>trace := trace s @ evs\<rparr>
       \<and> EvClose \<notin> set evs \<and> filter is_EvOpen evs = [] \<and> writes_of evs = []"
proof (cases "isinstance_Exception e")
  case False
  then show ?thesis
    by (intro exI [of _ "[]"]) (simp add: except_clauses_uncaught)
next
  case exc: True
  show ?thesis
  proof (cases "isinstance_SerialException e")
    case False
    with exc show ?thesis
      by (intro exI [of _ "[EvLogError (ErreurImprevue e)]"]) (simp add: except_clauses_non_serial)
  next
    case ser: True
    show ?thesis
    proof (cases "\<exists>x. str_encode numero = Inl x \<or> str_encode message = Inl x")
      case True
      then obtain x where "str_encode numero = Inl x \<or> str_encode message = Inl x" by blast
      from except_clauses_serial_unprintable [OF ser this]
      show ?thesis
        by (intro exI [of _ "[EvLogError (ModuleInaccessible e)]"]) simp
    next
      case False
      then obtain nb mb where "str_encode numero = Inr nb" "str_encode message = Inr mb"
        by (cases "str_encode numero"; cases "str_encode message") auto
      from except_clauses_serial [OF ser this]
      show ?thesis
        by (intro exI [of _ "[EvLogError (ModuleInaccessible e), EvPrintModeTest numero message]"])
           simp
    qed
  qed
qed

lemma try_body_not_opened:
  "open_result env = Some e \<Longrightarrow>
     try_body env numero message \<lparr>trace = [], ser = None\<rparr> = (Inl e, \<lparr>trace = [], ser = None\<rparr>)"
  by (simp add: try_body_def io_defs)

lemma try_body_opened:
  assumes "open_result env = None"
  shows "ser (snd (try_body env numero message \<lparr>trace = [], ser = None\<rparr>)) = Some True
       \<and> trace (snd (try_body env numero message \<lparr>trace = [], ser = None\<rparr>)) \<noteq> []
       \<and> hd (trace (snd (try_body env numero message \<lparr>trace = [], ser = None\<rparr>))) = EvOpen PORT BAUD_RATE 5
       \<and> EvClose \<notin> set (trace (snd (try_body env numero message \<lparr>trace = [], ser = None\<rparr>)))
       \<and> length (filter is_EvOpen (trace (snd (try_body env numero message \<lparr>trace = [], ser = None\<rparr>)))) = 1"
  using assms
  by (simp add: try_body_def io_defs Let_def split: option.split sum.split prod.split)


lemma try_body_live:
  assumes "open_result env = None" "\<forall>k<5. write_result env k = None"
    "str_encode (cmd_numero numero) = Inr cmd" "str_encode message = Inr body"
  shows "try_body env numero message \<lparr>trace = [], ser = None\<rparr> =
    (case read_all_result env of
       Inl e \<Rightarrow> (Inl e, \<lparr>trace = exchange_prefix cmd body, ser = Some True\<rparr>)
     | Inr raw \<Rightarrow>
        (let reponse = bytes_decode_ignore raw;
             ok = (str_contains reponse token_OK \<or> str_contains reponse token_CMGS)
         in (Inr ok, \<lparr>trace = exchange_prefix cmd body @ [EvReadAll raw,
                 (if ok then EvLogInfo (SmsEnvoye numero) else EvLogError (EchecEnvoi reponse))],
               ser = Some True\<rparr>)))"
  using assms
  by (simp add: try_body_def io_defs Let_def exchange_prefix_def split: sum.split)

lemma envoyer_live_read:
  assumes "open_result env = None" "\<forall>k<5. write_result env k = None"
    "str_encode (cmd_numero numero) = Inr cmd" "str_encode message = Inr body"
    "read_all_result env = Inr raw"
  shows "envoyer_sms_physique env numero message =
    (let reponse = bytes_decode_ignore raw;
         ok = (str_contains reponse token_OK \<or> str_contains reponse token_CMGS)
     in (Inr ok, \<lparr>trace = exchange_prefix cmd body @ [EvReadAll raw,
             (if ok then EvLogInfo (SmsEnvoye numero) else EvLogError (EchecEnvoi reponse)),
             EvClose],
           ser = Some False\<rparr>))"
  using try_body_live [OF assms(1-4)] assms(5)
  by (simp add: envoyer_sms_physique_def Let_def finally_block_def)

lemma envoyer_live_read_fault:
  assumes "open_result env = None" "\<forall>k<5. write_result env k = None"
    "str_encode (cmd_numero numero) = Inr cmd" "str_encode message = Inr body"
    "read_all_result env = Inl e"
  shows "\<exists>r evs. envoyer_sms_physique env numero message =
           (r, \<lparr>trace = exchange_prefix cmd body @ evs @ [EvClose], ser = Some False\<rparr>)
         \<and> EvClose \<notin> set evs \<and> filter is_EvOpen evs = [] \<and> writes_of evs = []"
proof -
  let ?s = "\<lparr>trace = exchange_prefix cmd body, ser = Some True\<rparr>"
  have tb: "try_body env numero message \<lparr>trace = [], ser = None\<rparr> = (Inl e, ?s)"
    using try_body_live [OF assms(1-4)] assms(5) by simp
  obtain evs where evs: "snd (except_clauses numero message e ?s) = ?s\<lparr>trace := trace ?s @ evs\<rparr>"
      "EvClose \<notin> set evs" "filter is_EvOpen evs = []" "writes_of evs = []"
    using except_clauses_state by blast
  obtain r where "except_clauses numero message e ?s = (r, ?s\<lparr>trace := trace ?s @ evs\<rparr>)"
    using evs(1) by (metis prod.collapse)
  then have "envoyer_sms_physique env numero message =
           (r, \<lparr>trace = exchange_prefix cmd body @ evs @ [EvClose], ser = Some False\<rparr>)"
    using tb by (simp add: envoyer_sms_physique_def finally_block_def)
  with evs(2-4) show ?thesis by blast
qed

lemma str_encode_cmd_numero:
  assumes "str_encode numero = Inr nb"
  shows "str_encode (cmd_numero numero) = Inr (bytes_lit ''AT+CMGS='' @ [0x22] @ nb @ [0x22, 0x0D])"
  using assms
  by (simp add: cmd_numero_def str_encode_append ascii_def bytes_lit_def utf8_encode_char_def)

lemma str_contains_sublist: "str_contains hay needle = sublist needle hay"
  by (induction hay) (auto simp: sublist_Cons_right)

lemma decode_ascii:
  "\<forall>b \<in> set raw. b < 0x80 \<Longrightarrow> bytes_decode_ignore raw = map unat raw"
  by (induction raw) auto

lemma envoyer_of_try_body:
  assumes "try_body env numero message \<lparr>trace = [], ser = None\<rparr> = (r, s)"
  shows "fst (envoyer_sms_physique env numero message) =
           (case r of Inr b \<Rightarrow> Inr b | Inl e \<Rightarrow> fst (except_clauses numero message e s))"
  using assms by (auto simp: envoyer_sms_physique_def split: sum.splits prod.splits)

lemma returned_value_kept:
  assumes "fst (try_body env numero message \<lparr>trace = [], ser = None\<rparr>) = Inr b"
  shows "fst (envoyer_sms_physique env numero message) = Inr b"
  using assms envoyer_of_try_body [of env numero message]
  by (cases "try_body env numero message \<lparr>trace = [], ser = None\<rparr>") auto

lemma serial_gives_True:
  assumes "fst (try_body env numero message \<lparr>trace = [], ser = None\<rparr>) = Inl e"
    and "isinstance_SerialException e"
    and "str_encode numero = Inr nb" and "str_encode message = Inr mb"
  shows "fst (envoyer_sms_physique env numero message) = Inr True"
  using assms(1) envoyer_of_try_body [of env numero message]
    except_clauses_serial [OF assms(2,3,4)]
  by (cases "try_body env numero message \<lparr>trace = [], ser = None\<rparr>") auto

lemma non_serial_gives_False:
  assumes "fst (try_body env numero message \<lparr>trace = [], ser = None\<rparr>) = Inl e"
    and "\<not> isinstance_SerialException e" and "isinstance_Exception e"
  shows "fst (envoyer_sms_physique env numero message) = Inr False"
  using assms(1) envoyer_of_try_body [of env numero message]
    except_clauses_non_serial [OF assms(2,3)]
  by (cases "try_body env numero message \<lparr>trace = [], ser = None\<rparr>") auto

lemma uncaught_propagates:
  assumes "fst (try_body env numero message \<lparr>trace = [], ser = None\<rparr>) = Inl e"
    and "\<not> isinstance_Exception e"
  shows "fst (envoyer_sms_physique env numero message) = Inl e"
  using assms(1) envoyer_of_try_body [of env numero message]
    except_clauses_uncaught [OF assms(2)]
  by (cases "try_body env numero message \<lparr>trace = [], ser = None\<rparr>") auto

lemma returns_boolean:
  assumes "\<forall>e. fst (try_body env numero message \<lparr>trace = [], ser = None\<rparr>) = Inl e
              \<longrightarrow> isinstance_Exception e"
    and "str_encode numero = Inr nb" and "str_encode message = Inr mb"
  shows "\<exists>b. fst (envoyer_sms_physique env numero message) = Inr b"
proof (cases "fst (try_body env numero message \<lparr>trace = [], ser = None\<rparr>)")
  case (Inr b)
  then show ?thesis using returned_value_kept by blast
next
  case (Inl e)
  with assms(1) have exc: "isinstance_Exception e" by blast
  show ?thesis
  proof (cases "isinstance_SerialException e")
    case True
    from serial_gives_True [OF Inl True assms(2,3)] show ?thesis by blast
  next
    case False
    from non_serial_gives_False [OF Inl False exc] show ?thesis by blast
  qed
qed

lemma envoyer_final_state:
  "\<exists>evs. snd (envoyer_sms_physique env numero message) =
     finally_block ((snd (try_body env numero message \<lparr>trace = [], ser = None\<rparr>))
        \<lparr>trace := trace (snd (try_body env numero message \<lparr>trace = [], ser = None\<rparr>)) @ evs\<rparr>)
     \<and> EvClose \<notin> set evs \<and> filter is_EvOpen evs = [] \<and> writes_of evs = []"
proof (cases "try_body env numero message \<lparr>trace = [], ser = None\<rparr>")
  case (Pair r s)
  show ?thesis
  proof (cases r)
    case (Inl e)
    obtain evs where evs: "snd (except_clauses numero message e s) = s\<lparr>trace := trace s @ evs\<rparr>"
      "EvClose \<notin> set evs" "filter is_EvOpen evs = []" "writes_of evs = []"
      using except_clauses_state by blast
    have "snd (envoyer_sms_physique env numero message) = finally_block (s\<lparr>trace := trace s @ evs\<rparr>)"
      using Pair Inl evs(1) by (auto simp: envoyer_sms_physique_def split: prod.splits)
    with evs(2-4) Pair show ?thesis by auto
  next
    case (Inr b)
    with Pair have "snd (envoyer_sms_physique env numero message) = finally_block (s\<lparr>trace := trace s @ []\<rparr>)"
      by (simp add: envoyer_sms_physique_def)
    with Pair show ?thesis
      by (intro exI [of _ "[]"]) simp
  qed
qed

lemma opened_then_closed:
  assumes "open_result env = None"
  shows "ser (snd (envoyer_sms_physique env numero message)) = Some False
       \<and> hd (trace (snd (envoyer_sms_physique env numero message))) = EvOpen PORT BAUD_RATE 5
       \<and> last (trace (snd (envoyer_sms_physique env numero message))) = EvClose
       \<and> count_list (trace (snd (envoyer_sms_physique env numero message))) EvClose = 1
       \<and> length (filter is_EvOpen (trace (snd (envoyer_sms_physique env numero message)))) = 1"
proof -
  let ?t = "snd (try_body env numero message \<lparr>trace = [], ser = None\<rparr>)"
  obtain evs where evs: "snd (envoyer_sms_physique env numero message) =
       finally_block (?t\<lparr>trace := trace ?t @ evs\<rparr>)"
      "EvClose \<notin> set evs" "filter is_EvOpen evs = []"
    using envoyer_final_state by blast
  have t: "ser ?t = Some True" "trace ?t \<noteq> []" "hd (trace ?t) = EvOpen PORT BAUD_RATE 5"
      "EvClose \<notin> set (trace ?t)" "length (filter is_EvOpen (trace ?t)) = 1"
    using try_body_opened [OF assms] by simp_all
  have fin: "snd (envoyer_sms_physique env numero message) =
       \<lparr>trace = trace ?t @ evs @ [EvClose], ser = Some False\<rparr>"
    using evs(1) t(1) by (simp add: finally_block_def)
  show ?thesis
    using t evs(2,3) by (simp add: fin count_list_0_iff)
qed

lemma not_opened_not_closed:
  assumes "open_result env = Some e"
  shows "ser (snd (envoyer_sms_physique env numero message)) = None
       \<and> count_list (trace (snd (envoyer_sms_physique env numero message))) EvClose = 0
       \<and> filter is_EvOpen (trace (snd (envoyer_sms_physique env numero message))) = []
       \<and> writes_of (trace (snd (envoyer_sms_physique env numero message))) = []"
proof -
  obtain evs where evs: "snd (envoyer_sms_physique env numero message) =
       finally_block (\<lparr>trace = [] @ evs, ser = None\<rparr>)"
      "EvClose \<notin> set evs" "filter is_EvOpen evs = []" "writes_of evs = []"
    using envoyer_final_state [of env numero message] try_body_not_opened [OF assms]
    by auto
  show ?thesis
    using evs by (simp add: finally_block_def count_list_0_iff)
qed

lemma scenario_encodings:
  "str_encode numero_D = Inr (bytes_lit ''+237699999999'')"
  "str_encode payload_D = Inr (bytes_lit ''CONF:1:FAMILLE:+237600000000'')"
  by (simp_all add: numero_D_def payload_D_def ascii_def bytes_lit_def utf8_encode_char_def)

lemma str_encode_cmd_numero_fails:
  assumes "str_encode numero = Inl e"
  shows "str_encode (cmd_numero numero) = Inl e"
  using assms
  by (simp add: cmd_numero_def str_encode_append ascii_def utf8_encode_char_def)

lemma try_body_message_unencodable:
  assumes "open_result env = None" "\<forall>k<5. write_result env k = None"
    "str_encode (cmd_numero numero) = Inr cmd" "str_encode message = Inl e"
  shows "try_body env numero message \<lparr>trace = [], ser = None\<rparr> =
    (Inl e, \<lparr>trace = [EvOpen PORT BAUD_RATE 5, EvSleep 1000, EvWrite (bytes_lit ''AT'' @ [0x0D]),
                       EvSleep 500, EvWrite (bytes_lit ''AT+CMGF=1'' @ [0x0D]), EvSleep 500,
                       EvWrite cmd, EvSleep 500],
             ser = Some True\<rparr>)"
  using assms by (simp add: try_body_def io_defs)

lemma try_body_numero_unencodable:
  assumes "open_result env = None" "\<forall>k<5. write_result env k = None"
    "str_encode (cmd_numero numero) = Inl e"
  shows "try_body env numero message \<lparr>trace = [], ser = None\<rparr> =
    (Inl e, \<lparr>trace = [EvOpen PORT BAUD_RATE 5, EvSleep 1000, EvWrite (bytes_lit ''AT'' @ [0x0D]),
                       EvSleep 500, EvWrite (bytes_lit ''AT+CMGF=1'' @ [0x0D]), EvSleep 500],
             ser = Some True\<rparr>)"
  using assms by (simp add: try_body_def io_defs)

lemma envoyer_message_unencodable:
  assumes "open_result env = None" "\<forall>k<5. write_result env k = None"
    "str_encode numero = Inr nb" "str_encode message = Inl e"
  shows "fst (envoyer_sms_physique env numero message) = Inr False"
    and "writes_of (trace (snd (envoyer_sms_physique env numero message))) =
           [bytes_lit ''AT'' @ [0x0D], bytes_lit ''AT+CMGF=1'' @ [0x0D],
            bytes_lit ''AT+CMGS='' @ [0x22] @ nb @ [0x22, 0x0D]]"
proof -
  have e: "e = UnicodeEncodeError"
    using str_encode_error [OF assms(4)] .
  note tb = try_body_message_unencodable [OF assms(1,2) str_encode_cmd_numero [OF assms(3)] assms(4)]
  show "fst (envoyer_sms_physique env numero message) = Inr False"
    using tb e by (simp add: envoyer_sms_physique_def except_clauses_non_serial)
  show "writes_of (trace (snd (envoyer_sms_physique env numero message))) =
           [bytes_lit ''AT'' @ [0x0D], bytes_lit ''AT+CMGF=1'' @ [0x0D],
            bytes_lit ''AT+CMGS='' @ [0x22] @ nb @ [0x22, 0x0D]]"
    using tb e
    by (simp add: envoyer_sms_physique_def except_clauses_non_serial finally_block_def)
qed

lemma envoyer_numero_unencodable:
  assumes "open_result env = None" "\<forall>k<5. write_result env k = None"
    "str_encode numero = Inl e"
  shows "fst (envoyer_sms_physique env numero message) = Inr False"
    and "writes_of (trace (snd (envoyer_sms_physique env numero message))) =
           [bytes_lit ''AT'' @ [0x0D], bytes_lit ''AT+CMGF=1'' @ [0x0D]]"
proof -
  have e: "e = UnicodeEncodeError"
    using str_encode_error [OF assms(3)] .
  note tb = try_body_numero_unencodable [OF assms(1,2) str_encode_cmd_numero_fails [OF assms(3)]]
  show "fst (envoyer_sms_physique env numero message) = Inr False"
    using tb e by (simp add: envoyer_sms_physique_def except_clauses_non_serial)
  show "writes_of (trace (snd (envoyer_sms_physique env numero message))) =
           [bytes_lit ''AT'' @ [0x0D], bytes_lit ''AT+CMGF=1'' @ [0x0D]]"
    using tb e
    by (simp add: envoyer_sms_physique_def except_clauses_non_serial finally_block_def)
qed

lemma sublist_map_inj:
  assumes "inj f"
  shows "sublist (map f xs) (map f ys) = sublist xs ys"
proof
  assume "sublist (map f xs) (map f ys)"
  then obtain ps ss where "map f ys = ps @ map f xs @ ss"
    by (auto simp: sublist_def)
  then obtain us vs ws where "ys = us @ vs @ ws" "map f vs = map f xs"
    by (auto simp: map_eq_append_conv append_eq_map_conv)
  moreover from this(2) assms have "vs = xs"
    by (simp add: inj_map_eq_map)
  ultimately show "sublist xs ys"
    by (auto simp: sublist_def)
next
  assume "sublist xs ys"
  then obtain ps ss where "ys = ps @ xs @ ss"
    by (auto simp: sublist_def)
  then have "map f ys = map f ps @ map f xs @ map f ss" by simp
  then show "sublist (map f xs) (map f ys)"
    unfolding sublist_def by blast
qed

lemma inj_unat_byte: "inj (unat :: byte \<Rightarrow> nat)"
  by (rule injI) (simp add: word_unat_eq_iff)

lemma tokens_as_bytes:
  "token_OK = map unat (bytes_lit ''OK'')"
  "token_CMGS = map unat (bytes_lit ''+CMGS:'')"
  by (simp_all add: token_OK_def token_CMGS_def ascii_def bytes_lit_def)

lemma ascii_response_test:
  assumes "\<forall>b \<in> set raw. b < 0x80"
  shows "sublist token_OK (bytes_decode_ignore raw) = sublist (bytes_lit ''OK'') raw"
    and "sublist token_CMGS (bytes_decode_ignore raw) = sublist (bytes_lit ''+CMGS:'') raw"
  by (simp_all only: decode_ascii [OF assms] tokens_as_bytes sublist_map_inj [OF inj_unat_byte])

lemma scenario_reads:
  "str_contains (bytes_decode_ignore (bytes_lit ''+CMGS: 12'')) token_CMGS"
  "\<not> str_contains (bytes_decode_ignore []) token_OK"
  "\<not> str_contains (bytes_decode_ignore []) token_CMGS"
  "str_contains (bytes_decode_ignore [0x4F, 0xFF, 0x4B]) token_OK"
  "\<not> str_contains [0x4F, 0xFF, 0x4B] (bytes_lit ''OK'')"
  "\<not> str_contains [0x4F, 0xFF, 0x4B] (bytes_lit ''+CMGS:'')"
  by (simp_all add: bytes_lit_def token_CMGS_def token_OK_def ascii_def)

lemma scenario_surrogate:
  "str_encode message_surrogate = Inl UnicodeEncodeError"
  by (simp add: message_surrogate_def utf8_encode_char_def)

text \<open>
  C4, as the code has it.  When the exchange runs to the end (the port opens, the five
  writes succeed and \<open>read_all\<close> returns the buffer \<open>raw\<close>), the send returns \<open>True\<close>
  exactly when the response decoded as UTF-8 with the undecodable bytes dropped contains
  \<open>OK\<close> or \<open>+CMGS:\<close> as a contiguous substring; an empty response gives \<open>False\<close>.  When
  the buffer holds ASCII bytes only, this is the same test on the buffer itself.
\<close>

theorem confirmed_iff_success_token:
  assumes "open_result env = None" and "\<forall>k<5. write_result env k = None"
    and "str_encode numero = Inr nb" and "str_encode message = Inr mb"
    and "read_all_result env = Inr raw"
  shows "fst (envoyer_sms_physique env numero message) =
           Inr (sublist token_OK (bytes_decode_ignore raw)
                \<or> sublist token_CMGS (bytes_decode_ignore raw))
         \<and> (raw = [] \<longrightarrow> fst (envoyer_sms_physique env numero message) = Inr False)
         \<and> ((\<forall>b \<in> set raw. b < 0x80)
              \<longrightarrow> fst (envoyer_sms_physique env numero message) =
                    Inr (sublist (bytes_lit ''OK'') raw \<or> sublist (bytes_lit ''+CMGS:'') raw))"
proof -
  have r: "fst (envoyer_sms_physique env numero message) =
           Inr (sublist token_OK (bytes_decode_ignore raw)
                \<or> sublist token_CMGS (bytes_decode_ignore raw))"
    using envoyer_live_read [OF assms(1,2) str_encode_cmd_numero [OF assms(3)] assms(4,5)]
    by (simp add: Let_def str_contains_sublist)
  have "\<not> sublist token_OK (bytes_decode_ignore [])"
       "\<not> sublist token_CMGS (bytes_decode_ignore [])"
    by (simp_all add: token_OK_def token_CMGS_def ascii_def)
  with r have e: "raw = [] \<longrightarrow> fst (envoyer_sms_physique env numero message) = Inr False"
    by auto
  have "fst (envoyer_sms_physique env numero message) =
          Inr (sublist (bytes_lit ''OK'') raw \<or> sublist (bytes_lit ''+CMGS:'') raw)"
    if "\<forall>b \<in> set raw. b < 0x80"
    using r ascii_response_test [OF that] by simp
  with r e show ?thesis by blast
qed

theorem confirmed_iff_success_token_witness:
  "fst (envoyer_sms_physique env_confirm numero_D payload_D) = Inr True
   \<and> fst (envoyer_sms_physique env_silent numero_D payload_D) = Inr False"
proof -
  have c: "open_result env_confirm = None" "\<forall>k<5. write_result env_confirm k = None"
    "read_all_result env_confirm = Inr (bytes_lit ''+CMGS: 12'')"
    by (simp_all add: env_confirm_def)
  have s: "open_result env_silent = None" "\<forall>k<5. write_result env_silent k = None"
    "read_all_result env_silent = Inr []"
    by (simp_all add: env_silent_def)
  have "sublist token_CMGS (bytes_decode_ignore (bytes_lit ''+CMGS: 12''))"
    using scenario_reads(1) by (simp add: str_contains_sublist)
  with confirmed_iff_success_token [OF c(1,2) scenario_encodings c(3), THEN conjunct1]
  have a: "fst (envoyer_sms_physique env_confirm numero_D payload_D) = Inr True"
    by simp
  from confirmed_iff_success_token [OF s(1,2) scenario_encodings s(3), THEN conjunct2, THEN conjunct1]
  have b: "fst (envoyer_sms_physique env_silent numero_D payload_D) = Inr False"
    by simp
  from a b show ?thesis by simp
qed

text \<open>
  The claim C4 as stated fails: the buffer \<open>O\<close>, \<open>0xFF\<close>, \<open>K\<close> contains neither \<open>OK\<close> nor
  \<open>+CMGS:\<close>, and the send over the link that returns it is confirmed.
\<close>

theorem raw_buffer_counterexample:
  "read_all_result env_noise = Inr [0x4F, 0xFF, 0x4B]
   \<and> \<not> sublist (bytes_lit ''OK'') [0x4F, 0xFF, 0x4B]
   \<and> \<not> sublist (bytes_lit ''+CMGS:'') [0x4F, 0xFF, 0x4B]
   \<and> fst (envoyer_sms_physique env_noise numero_D payload_D) = Inr True"
proof -
  have n: "open_result env_noise = None" "\<forall>k<5. write_result env_noise k = None"
    "read_all_result env_noise = Inr [0x4F, 0xFF, 0x4B]"
    by (simp_all add: env_noise_def)
  have "fst (envoyer_sms_physique env_noise numero_D payload_D) =
          Inr (str_contains (bytes_decode_ignore [0x4F, 0xFF, 0x4B]) token_OK
               \<or> str_contains (bytes_decode_ignore [0x4F, 0xFF, 0x4B]) token_CMGS)"
    using envoyer_live_read [OF n(1,2) str_encode_cmd_numero [OF scenario_encodings(1)]
        scenario_encodings(2) n(3)]
    by (simp add: Let_def del: bytes_decode_ignore.simps)
  with scenario_reads(4)
  have r: "fst (envoyer_sms_physique env_noise numero_D payload_D) = Inr True"
    by (simp del: bytes_decode_ignore.simps)
  have "\<not> sublist (bytes_lit ''OK'') [0x4F, 0xFF, 0x4B]"
       "\<not> sublist (bytes_lit ''+CMGS:'') [0x4F, 0xFF, 0x4B]"
    using scenario_reads(5,6) [unfolded str_contains_sublist] by blast+
  with n(3) r show ?thesis by blast
qed

text \<open>
  C5, as the code has it.  Over a live link (the port opens and the five writes succeed):
  when the number and the message encode to the bytes \<open>nb\<close> and \<open>mb\<close>, the trace is one
  open, then events among which the writes are exactly \<open>AT\r\<close>, \<open>AT+CMGF=1\r\<close>,
  \<open>AT+CMGS="\<close> \<open>nb\<close> \<open>"\r\<close>, \<open>mb\<close> and the byte 26, in this order, then one close, with no
  other open or close in between; when the message cannot be encoded the writes stop after
  the third and the send returns \<open>False\<close>; when the number cannot be encoded they stop after
  the second and the send returns \<open>False\<close>.
\<close>

theorem written_bytes_in_order:
  assumes "open_result env = None" and "\<forall>k<5. write_result env k = None"
  shows "(\<forall>nb mb. str_encode numero = Inr nb \<and> str_encode message = Inr mb
            \<longrightarrow> (\<exists>mid. trace (snd (envoyer_sms_physique env numero message))
                         = EvOpen PORT BAUD_RATE 5 # mid @ [EvClose]
                    \<and> EvClose \<notin> set mid \<and> filter is_EvOpen mid = []
                    \<and> writes_of mid = [bytes_lit ''AT'' @ [0x0D], bytes_lit ''AT+CMGF=1'' @ [0x0D],
                                       bytes_lit ''AT+CMGS='' @ [0x22] @ nb @ [0x22, 0x0D],
                                       mb, [26]]))
       \<and> (\<forall>nb e. str_encode numero = Inr nb \<and> str_encode message = Inl e
            \<longrightarrow> fst (envoyer_sms_physique env numero message) = Inr False
              \<and> writes_of (trace (snd (envoyer_sms_physique env numero message)))
                  = [bytes_lit ''AT'' @ [0x0D], bytes_lit ''AT+CMGF=1'' @ [0x0D],
                     bytes_lit ''AT+CMGS='' @ [0x22] @ nb @ [0x22, 0x0D]])
       \<and> (\<forall>e. str_encode numero = Inl e
            \<longrightarrow> fst (envoyer_sms_physique env numero message) = Inr False
              \<and> writes_of (trace (snd (envoyer_sms_physique env numero message)))
                  = [bytes_lit ''AT'' @ [0x0D], bytes_lit ''AT+CMGF=1'' @ [0x0D]])"
proof (intro conjI allI impI)
  fix nb e
  assume "str_encode numero = Inr nb \<and> str_encode message = Inl e"
  then have h: "str_encode numero = Inr nb" "str_encode message = Inl e" by simp_all
  show "fst (envoyer_sms_physique env numero message) = Inr False"
    using envoyer_message_unencodable(1) [OF assms h] .
  show "writes_of (trace (snd (envoyer_sms_physique env numero message)))
                  = [bytes_lit ''AT'' @ [0x0D], bytes_lit ''AT+CMGF=1'' @ [0x0D],
                     bytes_lit ''AT+CMGS='' @ [0x22] @ nb @ [0x22, 0x0D]]"
    using envoyer_message_unencodable(2) [OF assms h] .
next
  fix e
  assume h: "str_encode numero = Inl e"
  show "fst (envoyer_sms_physique env numero message) = Inr False"
    using envoyer_numero_unencodable(1) [OF assms h] .
  show "writes_of (trace (snd (envoyer_sms_physique env numero message)))
                  = [bytes_lit ''AT'' @ [0x0D], bytes_lit ''AT+CMGF=1'' @ [0x0D]]"
    using envoyer_numero_unencodable(2) [OF assms h] .
next
  fix nb mb
  assume "str_encode numero = Inr nb \<and> str_encode message = Inr mb"
  then have enc_n: "str_encode numero = Inr nb" and enc_m: "str_encode message = Inr mb"
    by simp_all
  show "\<exists>mid. trace (snd (envoyer_sms_physique env numero message))
                         = EvOpen PORT BAUD_RATE 5 # mid @ [EvClose]
                    \<and> EvClose \<notin> set mid \<and> filter is_EvOpen mid = []
                    \<and> writes_of mid = [bytes_lit ''AT'' @ [0x0D], bytes_lit ''AT+CMGF=1'' @ [0x0D],
                                       bytes_lit ''AT+CMGS='' @ [0x22] @ nb @ [0x22, 0x0D],
                                       mb, [26]]"
  proof -
  let ?cmd = "bytes_lit ''AT+CMGS='' @ [0x22] @ nb @ [0x22, 0x0D]"
  note enc = str_encode_cmd_numero [OF enc_n]
  have pre: "exchange_prefix ?cmd mb = EvOpen PORT BAUD_RATE 5 # tl (exchange_prefix ?cmd mb)"
    "EvClose \<notin> set (tl (exchange_prefix ?cmd mb))"
    "filter is_EvOpen (tl (exchange_prefix ?cmd mb)) = []"
    "writes_of (tl (exchange_prefix ?cmd mb)) =
       [bytes_lit ''AT'' @ [0x0D], bytes_lit ''AT+CMGF=1'' @ [0x0D], ?cmd, mb, [26]]"
    by (simp_all add: exchange_prefix_def)
  show ?thesis
  proof (cases "read_all_result env")
    case (Inr raw)
    let ?rep = "bytes_decode_ignore raw"
    let ?ok = "str_contains ?rep token_OK \<or> str_contains ?rep token_CMGS"
    let ?tail = "[EvReadAll raw,
        (if ?ok then EvLogInfo (SmsEnvoye numero) else EvLogError (EchecEnvoi ?rep))]"
    have "trace (snd (envoyer_sms_physique env numero message)) =
            exchange_prefix ?cmd mb @ ?tail @ [EvClose]"
      using envoyer_live_read [OF assms(1,2) enc enc_m Inr] by (simp add: Let_def)
    then have "trace (snd (envoyer_sms_physique env numero message)) =
            EvOpen PORT BAUD_RATE 5 # (tl (exchange_prefix ?cmd mb) @ ?tail) @ [EvClose]"
      using pre(1) by (metis append_Cons append_assoc)
    moreover have "EvClose \<notin> set (tl (exchange_prefix ?cmd mb) @ ?tail)"
      using pre(2) by simp
    moreover have "filter is_EvOpen (tl (exchange_prefix ?cmd mb) @ ?tail) = []"
      using pre(3) by simp
    moreover have "writes_of (tl (exchange_prefix ?cmd mb) @ ?tail) =
        [bytes_lit ''AT'' @ [0x0D], bytes_lit ''AT+CMGF=1'' @ [0x0D], ?cmd, mb, [26]]"
      using pre(4) by (simp add: writes_of_append)
    ultimately show ?thesis by blast
  next
    case (Inl e)
    obtain r evs where ev: "envoyer_sms_physique env numero message =
           (r, \<lparr>trace = exchange_prefix ?cmd mb @ evs @ [EvClose], ser = Some False\<rparr>)"
        "EvClose \<notin> set evs" "filter is_EvOpen evs = []" "writes_of evs = []"
      using envoyer_live_read_fault [OF assms(1,2) enc enc_m Inl] by blast
    have "trace (snd (envoyer_sms_physique env numero message)) =
            EvOpen PORT BAUD_RATE 5 # (tl (exchange_prefix ?cmd mb) @ evs) @ [EvClose]"
      using ev(1) pre(1) by (metis append_Cons append_assoc hw_state.select_convs(1) snd_conv)
    moreover have "EvClose \<notin> set (tl (exchange_prefix ?cmd mb) @ evs)"
      using pre(2) ev(2) by simp
    moreover have "filter is_EvOpen (tl (exchange_prefix ?cmd mb) @ evs) = []"
      using pre(3) ev(3) by simp
    moreover have "writes_of (tl (exchange_prefix ?cmd mb) @ evs) =
        [bytes_lit ''AT'' @ [0x0D], bytes_lit ''AT+CMGF=1'' @ [0x0D], ?cmd, mb, [26]]"
      using pre(4) ev(4) by (simp add: writes_of_append)
    ultimately show ?thesis by blast
  qed
qed
qed

theorem written_bytes_in_order_witness:
  "writes_of (trace (snd (envoyer_sms_physique env_confirm numero_D payload_D))) =
     [bytes_lit ''AT'' @ [0x0D], bytes_lit ''AT+CMGF=1'' @ [0x0D],
      bytes_lit ''AT+CMGS='' @ [0x22] @ bytes_lit ''+237699999999'' @ [0x22, 0x0D],
      bytes_lit ''CONF:1:FAMILLE:+237600000000'', [26]]
   \<and> fst (envoyer_sms_physique env_confirm numero_D message_surrogate) = Inr False"
proof -
  have l: "open_result env_confirm = None" "\<forall>k<5. write_result env_confirm k = None"
    by (simp_all add: env_confirm_def)
  note t1 = written_bytes_in_order [OF l, of numero_D payload_D]
  note t2 = written_bytes_in_order [OF l, of numero_D message_surrogate]
  from t1 scenario_encodings
  obtain mid where "trace (snd (envoyer_sms_physique env_confirm numero_D payload_D))
                 = EvOpen PORT BAUD_RATE 5 # mid @ [EvClose]"
    "writes_of mid = [bytes_lit ''AT'' @ [0x0D], bytes_lit ''AT+CMGF=1'' @ [0x0D],
      bytes_lit ''AT+CMGS='' @ [0x22] @ bytes_lit ''+237699999999'' @ [0x22, 0x0D],
      bytes_lit ''CONF:1:FAMILLE:+237600000000'', [26]]"
    by blast
  then have a: "writes_of (trace (snd (envoyer_sms_physique env_confirm numero_D payload_D))) =
     [bytes_lit ''AT'' @ [0x0D], bytes_lit ''AT+CMGF=1'' @ [0x0D],
      bytes_lit ''AT+CMGS='' @ [0x22] @ bytes_lit ''+237699999999'' @ [0x22, 0x0D],
      bytes_lit ''CONF:1:FAMILLE:+237600000000'', [26]]"
    by (simp add: writes_of_append)
  from t2 scenario_encodings(1) scenario_surrogate
  have "fst (envoyer_sms_physique env_confirm numero_D message_surrogate) = Inr False"
    by blast
  with a show ?thesis by simp
qed

text \<open>
  The claim C5 as stated fails: over the live link of the scenario, the send of a message
  that ends in a lone surrogate writes the first three commands only; neither a body nor
  the byte 26 follows.
\<close>

theorem unencodable_body_counterexample:
  "open_result env_confirm = None
   \<and> writes_of (trace (snd (envoyer_sms_physique env_confirm numero_D message_surrogate))) =
       [bytes_lit ''AT'' @ [0x0D], bytes_lit ''AT+CMGF=1'' @ [0x0D],
        bytes_lit ''AT+CMGS='' @ [0x22] @ bytes_lit ''+237699999999'' @ [0x22, 0x0D]]"
proof -
  have l: "open_result env_confirm = None" "\<forall>k<5. write_result env_confirm k = None"
    by (simp_all add: env_confirm_def)
  from envoyer_message_unencodable(2) [OF l scenario_encodings(1) scenario_surrogate] l(1)
  show ?thesis by simp
qed

lemma scenario_results:
  "fst (envoyer_sms_physique env_confirm numero_D payload_D) = Inr True"
  "fst (envoyer_sms_physique env_silent numero_D payload_D) = Inr False"
  "envoyer_sms_physique env_absent numero_D payload_D =
     (Inr True, \<lparr>trace = [EvLogError (ModuleInaccessible SerialException),
                          EvPrintModeTest numero_D payload_D], ser = None\<rparr>)"
  "fst (envoyer_sms_physique env_write_fault numero_D payload_D) = Inr True"
  "fst (try_body env_unexpected numero_D payload_D \<lparr>trace = [], ser = None\<rparr>) = Inl OtherException"
  "fst (envoyer_sms_physique env_absent numero_D message_surrogate) = Inl UnicodeEncodeError"
  "fst (try_body env_interrupted numero_D payload_D \<lparr>trace = [], ser = None\<rparr>) = Inl KeyboardInterrupt"
  "fst (envoyer_sms_physique env_interrupted numero_D payload_D) = Inl KeyboardInterrupt"
proof -
  have c: "open_result env_confirm = None" "\<forall>k<5. write_result env_confirm k = None"
    "read_all_result env_confirm = Inr (bytes_lit ''+CMGS: 12'')"
    by (simp_all add: env_confirm_def)
  have s: "open_result env_silent = None" "\<forall>k<5. write_result env_silent k = None"
    "read_all_result env_silent = Inr []"
    by (simp_all add: env_silent_def)
  note enc = str_encode_cmd_numero [OF scenario_encodings(1)] scenario_encodings(2)
  have "fst (envoyer_sms_physique env_confirm numero_D payload_D) =
          Inr (str_contains (bytes_decode_ignore (bytes_lit ''+CMGS: 12'')) token_OK
               \<or> str_contains (bytes_decode_ignore (bytes_lit ''+CMGS: 12'')) token_CMGS)"
    using envoyer_live_read [OF c(1,2) enc c(3)]
    by (simp add: Let_def del: bytes_decode_ignore.simps)
  with scenario_reads(1)
  show "fst (envoyer_sms_physique env_confirm numero_D payload_D) = Inr True"
    by (simp del: bytes_decode_ignore.simps)
  have "fst (envoyer_sms_physique env_silent numero_D payload_D) =
          Inr (str_contains (bytes_decode_ignore []) token_OK
               \<or> str_contains (bytes_decode_ignore []) token_CMGS)"
    using envoyer_live_read [OF s(1,2) enc s(3)]
    by (simp add: Let_def del: bytes_decode_ignore.simps)
  with scenario_reads(2,3)
  show "fst (envoyer_sms_physique env_silent numero_D payload_D) = Inr False"
    by (simp del: bytes_decode_ignore.simps)
  have a: "open_result env_absent = Some SerialException"
    by (simp add: env_absent_def)
  have ser: "isinstance_SerialException SerialException"
    by simp
  from try_body_not_opened [OF a]
  show "envoyer_sms_physique env_absent numero_D payload_D =
     (Inr True, \<lparr>trace = [EvLogError (ModuleInaccessible SerialException),
                          EvPrintModeTest numero_D payload_D], ser = None\<rparr>)"
    by (simp add: envoyer_sms_physique_def finally_block_def
        except_clauses_serial [OF ser scenario_encodings])
  have "str_encode numero_D = Inl UnicodeEncodeError
        \<or> str_encode message_surrogate = Inl UnicodeEncodeError"
    using scenario_surrogate by simp
  from try_body_not_opened [OF a] except_clauses_serial_unprintable [OF ser this]
  show "fst (envoyer_sms_physique env_absent numero_D message_surrogate) = Inl UnicodeEncodeError"
    by (simp add: envoyer_sms_physique_def)
  have "try_body env_write_fault numero_D payload_D \<lparr>trace = [], ser = None\<rparr> =
          (Inl SerialException, \<lparr>trace = [EvOpen PORT BAUD_RATE 5, EvSleep 1000], ser = Some True\<rparr>)"
    by (simp add: try_body_def io_defs env_write_fault_def)
  then show "fst (envoyer_sms_physique env_write_fault numero_D payload_D) = Inr True"
    by (simp add: envoyer_sms_physique_def except_clauses_serial [OF ser scenario_encodings])
  show "fst (try_body env_unexpected numero_D payload_D \<lparr>trace = [], ser = None\<rparr>) = Inl OtherException"
    by (simp add: try_body_def io_defs env_unexpected_def)
  show i: "fst (try_body env_interrupted numero_D payload_D \<lparr>trace = [], ser = None\<rparr>)
             = Inl KeyboardInterrupt"
    by (simp add: try_body_def io_defs env_interrupted_def)
  show "fst (envoyer_sms_physique env_interrupted numero_D payload_D) = Inl KeyboardInterrupt"
    using uncaught_propagates [OF i] by simp
qed

text \<open>
  C10, as the code has it.  A value returned by the \<open>try\<close> body is returned.  An exception
  of the serial hierarchy gives \<open>True\<close> when the number and the message can be encoded, so
  that the \<open>[MODE TEST]\<close> line prints; any other exception that derives from \<open>Exception\<close>
  gives \<open>False\<close>; an exception that does not derive from \<open>Exception\<close> leaves the
  function.  Hence the function returns a boolean whenever the number and the message can
  be encoded and every exception of the body derives from \<open>Exception\<close>.  On every exit
  path, returning or raising, the port is closed exactly once, as the last event, when it
  was opened, and no close is attempted when it was not.
\<close>

theorem envoyer_sms_physique_exits:
  "(\<forall>b. fst (try_body env numero message \<lparr>trace = [], ser = None\<rparr>) = Inr b
          \<longrightarrow> fst (envoyer_sms_physique env numero message) = Inr b)
   \<and> (\<forall>e nb mb. fst (try_body env numero message \<lparr>trace = [], ser = None\<rparr>) = Inl e
            \<and> isinstance_SerialException e
            \<and> str_encode numero = Inr nb \<and> str_encode message = Inr mb
          \<longrightarrow> fst (envoyer_sms_physique env numero message) = Inr True)
   \<and> (\<forall>e. fst (try_body env numero message \<lparr>trace = [], ser = None\<rparr>) = Inl e
            \<and> \<not> isinstance_SerialException e \<and> isinstance_Exception e
          \<longrightarrow> fst (envoyer_sms_physique env numero message) = Inr False)
   \<and> (\<forall>e. fst (try_body env numero message \<lparr>trace = [], ser = None\<rparr>) = Inl e
            \<and> \<not> isinstance_Exception e
          \<longrightarrow> fst (envoyer_sms_physique env numero message) = Inl e)
   \<and> (\<forall>nb mb. (\<forall>e. fst (try_body env numero message \<lparr>trace = [], ser = None\<rparr>) = Inl e
                    \<longrightarrow> isinstance_Exception e)
            \<and> str_encode numero = Inr nb \<and> str_encode message = Inr mb
          \<longrightarrow> (\<exists>b. fst (envoyer_sms_physique env numero message) = Inr b))
   \<and> (open_result env = None
          \<longrightarrow> ser (snd (envoyer_sms_physique env numero message)) = Some False
            \<and> last (trace (snd (envoyer_sms_physique env numero message))) = EvClose
            \<and> count_list (trace (snd (envoyer_sms_physique env numero message))) EvClose = 1)
   \<and> (open_result env \<noteq> None
          \<longrightarrow> ser (snd (envoyer_sms_physique env numero message)) = None
            \<and> count_list (trace (snd (envoyer_sms_physique env numero message))) EvClose = 0)"
proof (intro conjI allI impI)
  fix b
  assume "fst (try_body env numero message \<lparr>trace = [], ser = None\<rparr>) = Inr b"
  then show "fst (envoyer_sms_physique env numero message) = Inr b"
    by (rule returned_value_kept)
next
  fix e nb mb
  assume "fst (try_body env numero message \<lparr>trace = [], ser = None\<rparr>) = Inl e
            \<and> isinstance_SerialException e
            \<and> str_encode numero = Inr nb \<and> str_encode message = Inr mb"
  then show "fst (envoyer_sms_physique env numero message) = Inr True"
    using serial_gives_True by blast
next
  fix e
  assume "fst (try_body env numero message \<lparr>trace = [], ser = None\<rparr>) = Inl e
            \<and> \<not> isinstance_SerialException e \<and> isinstance_Exception e"
  then show "fst (envoyer_sms_physique env numero message) = Inr False"
    using non_serial_gives_False by blast
next
  fix e
  assume "fst (try_body env numero message \<lparr>trace = [], ser = None\<rparr>) = Inl e
            \<and> \<not> isinstance_Exception e"
  then show "fst (envoyer_sms_physique env numero message) = Inl e"
    using uncaught_propagates by blast
next
  fix nb mb
  assume "(\<forall>e. fst (try_body env numero message \<lparr>trace = [], ser = None\<rparr>) = Inl e
                    \<longrightarrow> isinstance_Exception e)
            \<and> str_encode numero = Inr nb \<and> str_encode message = Inr mb"
  then show "\<exists>b. fst (envoyer_sms_physique env numero message) = Inr b"
    using returns_boolean [of env numero message nb mb] by blast
next
  assume o: "open_result env = None"
  show "ser (snd (envoyer_sms_physique env numero message)) = Some False"
    using opened_then_closed [OF o] by blast
  show "last (trace (snd (envoyer_sms_physique env numero message))) = EvClose"
    using opened_then_closed [OF o] by blast
  show "count_list (trace (snd (envoyer_sms_physique env numero message))) EvClose = 1"
    using opened_then_closed [OF o] by blast
next
  assume "open_result env \<noteq> None"
  then obtain e where o: "open_result env = Some e" by auto
  show "ser (snd (envoyer_sms_physique env numero message)) = None"
    using not_opened_not_closed [OF o] by blast
  show "count_list (trace (snd (envoyer_sms_physique env numero message))) EvClose = 0"
    using not_opened_not_closed [OF o] by blast
qed

theorem envoyer_sms_physique_exits_witness:
  "fst (envoyer_sms_physique env_unexpected numero_D payload_D) = Inr False
   \<and> ser (snd (envoyer_sms_physique env_unexpected numero_D payload_D)) = Some False
   \<and> last (trace (snd (envoyer_sms_physique env_unexpected numero_D payload_D))) = EvClose
   \<and> fst (envoyer_sms_physique env_interrupted numero_D payload_D) = Inl KeyboardInterrupt
   \<and> last (trace (snd (envoyer_sms_physique env_interrupted numero_D payload_D))) = EvClose
   \<and> ser (snd (envoyer_sms_physique env_absent numero_D message_surrogate)) = None
   \<and> count_list (trace (snd (envoyer_sms_physique env_absent numero_D message_surrogate))) EvClose = 0"
proof -
  have u: "open_result env_unexpected = None"
    by (simp add: env_unexpected_def)
  have i: "open_result env_interrupted = None"
    by (simp add: env_interrupted_def)
  have a: "open_result env_absent \<noteq> None"
    by (simp add: env_absent_def)
  have n: "\<not> isinstance_SerialException OtherException \<and> isinstance_Exception OtherException"
    "\<not> isinstance_Exception KeyboardInterrupt"
    by simp_all
  note t1 = envoyer_sms_physique_exits [of env_unexpected numero_D payload_D]
  note t2 = envoyer_sms_physique_exits [of env_interrupted numero_D payload_D]
  note t3 = envoyer_sms_physique_exits [of env_absent numero_D message_surrogate]
  from t1 scenario_results(5) n(1)
  have "fst (envoyer_sms_physique env_unexpected numero_D payload_D) = Inr False"
    by blast
  moreover from t1 u
  have "ser (snd (envoyer_sms_physique env_unexpected numero_D payload_D)) = Some False
     \<and> last (trace (snd (envoyer_sms_physique env_unexpected numero_D payload_D))) = EvClose"
    by blast
  moreover from t2 scenario_results(7) n(2)
  have "fst (envoyer_sms_physique env_interrupted numero_D payload_D) = Inl KeyboardInterrupt"
    by blast
  moreover from t2 i
  have "last (trace (snd (envoyer_sms_physique env_interrupted numero_D payload_D))) = EvClose"
    by blast
  moreover from t3 a
  have "ser (snd (envoyer_sms_physique env_absent numero_D message_surrogate)) = None
     \<and> count_list (trace (snd (envoyer_sms_physique env_absent numero_D message_surrogate))) EvClose = 0"
    by blast
  ultimately show ?thesis by blast
qed

text \<open>
  The claim C10 as stated fails: with no device on the port and a message that ends in a
  lone surrogate, the \<open>print\<close> of the first handler raises and the exception leaves the
  function; and a key interrupt during the first write is caught by no clause.
\<close>

theorem propagation_counterexample:
  "fst (envoyer_sms_physique env_absent numero_D message_surrogate) = Inl UnicodeEncodeError
   \<and> fst (envoyer_sms_physique env_interrupted numero_D payload_D) = Inl KeyboardInterrupt"
  using scenario_results(6,8) by simp

text \<open>
  C1, as the code has it.  When the constructor of the port raises a \<open>SerialException\<close> and
  the number and the message can be encoded, the send returns \<open>True\<close> after logging the
  error and printing the \<open>[MODE TEST]\<close> line, without touching the port.  A real
  confirmation returns the same \<open>True\<close>; it differs only in the events: it logs the success
  and prints no \<open>[MODE TEST]\<close> line.  An exception of the \<open>try\<close> body that derives from
  \<open>Exception\<close> and is not a \<open>SerialException\<close> gives \<open>False\<close>.
\<close>

theorem simulated_success_when_port_absent:
  "(\<forall>e nb mb. open_result env = Some e \<and> isinstance_SerialException e
          \<and> str_encode numero = Inr nb \<and> str_encode message = Inr mb
        \<longrightarrow> envoyer_sms_physique env numero message =
              (Inr True, \<lparr>trace = [EvLogError (ModuleInaccessible e),
                                   EvPrintModeTest numero message], ser = None\<rparr>))
   \<and> (\<forall>nb mb raw.
         open_result env = None \<and> (\<forall>k<5. write_result env k = None)
         \<and> str_encode numero = Inr nb \<and> str_encode message = Inr mb
         \<and> read_all_result env = Inr raw
         \<and> (sublist token_OK (bytes_decode_ignore raw)
             \<or> sublist token_CMGS (bytes_decode_ignore raw))
        \<longrightarrow> fst (envoyer_sms_physique env numero message) = Inr True
          \<and> EvPrintModeTest numero message
               \<notin> set (trace (snd (envoyer_sms_physique env numero message)))
          \<and> EvLogInfo (SmsEnvoye numero)
               \<in> set (trace (snd (envoyer_sms_physique env numero message))))
   \<and> (\<forall>e. fst (try_body env numero message \<lparr>trace = [], ser = None\<rparr>) = Inl e
            \<and> \<not> isinstance_SerialException e \<and> isinstance_Exception e
        \<longrightarrow> fst (envoyer_sms_physique env numero message) = Inr False)"
proof (intro conjI allI impI)
  fix e nb mb
  assume "open_result env = Some e \<and> isinstance_SerialException e
          \<and> str_encode numero = Inr nb \<and> str_encode message = Inr mb"
  then have o: "open_result env = Some e" and se: "isinstance_SerialException e"
    and en: "str_encode numero = Inr nb" "str_encode message = Inr mb"
    by simp_all
  from try_body_not_opened [OF o]
  show "envoyer_sms_physique env numero message =
              (Inr True, \<lparr>trace = [EvLogError (ModuleInaccessible e),
                                   EvPrintModeTest numero message], ser = None\<rparr>)"
    by (simp add: envoyer_sms_physique_def finally_block_def except_clauses_serial [OF se en])
next
  fix nb mb raw
  assume h: "open_result env = None \<and> (\<forall>k<5. write_result env k = None)
         \<and> str_encode numero = Inr nb \<and> str_encode message = Inr mb
         \<and> read_all_result env = Inr raw
         \<and> (sublist token_OK (bytes_decode_ignore raw)
             \<or> sublist token_CMGS (bytes_decode_ignore raw))"
  then have ok: "str_contains (bytes_decode_ignore raw) token_OK
             \<or> str_contains (bytes_decode_ignore raw) token_CMGS"
    by (simp add: str_contains_sublist)
  from h have l: "open_result env = None" "\<forall>k<5. write_result env k = None"
      "str_encode numero = Inr nb" "str_encode message = Inr mb" "read_all_result env = Inr raw"
    by simp_all
  note run = envoyer_live_read [OF l(1,2) str_encode_cmd_numero [OF l(3)] l(4,5)]
  show "fst (envoyer_sms_physique env numero message) = Inr True"
    using run ok by (simp add: Let_def)
  show "EvPrintModeTest numero message
               \<notin> set (trace (snd (envoyer_sms_physique env numero message)))"
    using run ok by (simp add: Let_def exchange_prefix_def)
  show "EvLogInfo (SmsEnvoye numero)
               \<in> set (trace (snd (envoyer_sms_physique env numero message)))"
    using run ok by (simp add: Let_def exchange_prefix_def)
next
  fix e
  assume "fst (try_body env numero message \<lparr>trace = [], ser = None\<rparr>) = Inl e
            \<and> \<not> isinstance_SerialException e \<and> isinstance_Exception e"
  then show "fst (envoyer_sms_physique env numero message) = Inr False"
    using non_serial_gives_False by blast
qed

theorem simulated_success_when_port_absent_witness:
  "envoyer_sms_physique env_absent numero_D payload_D =
     (Inr True, \<lparr>trace = [EvLogError (ModuleInaccessible SerialException),
                          EvPrintModeTest numero_D payload_D], ser = None\<rparr>)
   \<and> fst (envoyer_sms_physique env_confirm numero_D payload_D) = Inr True
   \<and> EvPrintModeTest numero_D payload_D
        \<notin> set (trace (snd (envoyer_sms_physique env_confirm numero_D payload_D)))
   \<and> fst (envoyer_sms_physique env_unexpected numero_D payload_D) = Inr False"
proof -
  have a: "open_result env_absent = Some SerialException
           \<and> isinstance_SerialException SerialException
           \<and> str_encode numero_D = Inr (bytes_lit ''+237699999999'')
           \<and> str_encode payload_D = Inr (bytes_lit ''CONF:1:FAMILLE:+237600000000'')"
    using scenario_encodings by (simp add: env_absent_def)
  have "sublist token_CMGS (bytes_decode_ignore (bytes_lit ''+CMGS: 12''))"
    using scenario_reads(1) by (simp add: str_contains_sublist)
  then have c: "open_result env_confirm = None \<and> (\<forall>k<5. write_result env_confirm k = None)
         \<and> str_encode numero_D = Inr (bytes_lit ''+237699999999'')
         \<and> str_encode payload_D = Inr (bytes_lit ''CONF:1:FAMILLE:+237600000000'')
         \<and> read_all_result env_confirm = Inr (bytes_lit ''+CMGS: 12'')
         \<and> (sublist token_OK (bytes_decode_ignore (bytes_lit ''+CMGS: 12''))
             \<or> sublist token_CMGS (bytes_decode_ignore (bytes_lit ''+CMGS: 12'')))"
    using scenario_encodings by (simp add: env_confirm_def)
  have u: "fst (try_body env_unexpected numero_D payload_D \<lparr>trace = [], ser = None\<rparr>)
             = Inl OtherException \<and> \<not> isinstance_SerialException OtherException
               \<and> isinstance_Exception OtherException"
    using scenario_results(5) by simp
  note t1 = simulated_success_when_port_absent [of env_absent numero_D payload_D]
  note t2 = simulated_success_when_port_absent [of env_confirm numero_D payload_D]
  note t3 = simulated_success_when_port_absent [of env_unexpected numero_D payload_D]
  from t1 a have "envoyer_sms_physique env_absent numero_D payload_D =
     (Inr True, \<lparr>trace = [EvLogError (ModuleInaccessible SerialException),
                          EvPrintModeTest numero_D payload_D], ser = None\<rparr>)"
    by blast
  moreover from t2 c have "fst (envoyer_sms_physique env_confirm numero_D payload_D) = Inr True
     \<and> EvPrintModeTest numero_D payload_D
        \<notin> set (trace (snd (envoyer_sms_physique env_confirm numero_D payload_D)))"
    by blast
  moreover from t3 u have "fst (envoyer_sms_physique env_unexpected numero_D payload_D) = Inr False"
    by blast
  ultimately show ?thesis by blast
qed

text \<open>
  The claim C1 as stated fails: the value returned when no hardware is attached is the
  value returned by a real confirmation; a \<open>SerialException\<close> raised by a write in the
  middle of the exchange is reported as success as well; and with no hardware attached and
  a message that ends in a lone surrogate the send reports nothing, it raises.
\<close>

theorem simulated_success_counterexample:
  "fst (envoyer_sms_physique env_absent numero_D payload_D)
     = fst (envoyer_sms_physique env_confirm numero_D payload_D)
   \<and> fst (envoyer_sms_physique env_write_fault numero_D payload_D) = Inr True
   \<and> fst (envoyer_sms_physique env_absent numero_D message_surrogate) = Inl UnicodeEncodeError"
  using scenario_results(1,3,4,6) by simp


section \<open>Properties of the send task\<close>

lemma Canne_get_id: "Canne_get db cid = Some canne \<Longrightarrow> canne_id canne = cid"
  by (auto simp: Canne_get_def find_Some_iff)

lemma task_not_found:
  "Canne_get db cid = None \<Longrightarrow>
     task_envoyer_sms r db env cid c = (Returned Status_failed_not_found, db, [])"
  by (simp add: task_envoyer_sms_def)

lemma task_success:
  assumes "Canne_get db cid = Some canne"
    and "fst (envoyer_sms_physique env (numero_gsm canne) c) = Inr True"
  shows "task_envoyer_sms r db env cid c =
           (Returned Status_success, db, trace (snd (envoyer_sms_physique env (numero_gsm canne) c)))"
  using assms by (cases "envoyer_sms_physique env (numero_gsm canne) c")
    (simp add: task_envoyer_sms_def)

lemma task_rejected:
  assumes "Canne_get db cid = Some canne"
    and "fst (envoyer_sms_physique env (numero_gsm canne) c) = Inr False"
  shows "task_envoyer_sms r db env cid c =
           (self_retry r GSMEchoue 60, db, trace (snd (envoyer_sms_physique env (numero_gsm canne) c)))"
  using assms by (cases "envoyer_sms_physique env (numero_gsm canne) c")
    (simp add: task_envoyer_sms_def)

lemma task_retried:
  assumes "Canne_get db cid = Some canne"
    and "fst (envoyer_sms_physique env (numero_gsm canne) c) \<noteq> Inr True"
    and "\<forall>e. fst (envoyer_sms_physique env (numero_gsm canne) c) = Inl e \<longrightarrow> isinstance_Exception e"
  shows "\<exists>x. task_envoyer_sms r db env cid c =
           (self_retry r x 60, db, trace (snd (envoyer_sms_physique env (numero_gsm canne) c)))"
  using assms by (cases "envoyer_sms_physique env (numero_gsm canne) c")
    (auto simp: task_envoyer_sms_def split: sum.splits)

lemma task_db_unchanged: "fst (snd (task_envoyer_sms r db env cid c)) = db"
  by (simp add: task_envoyer_sms_def Let_def split: option.split prod.split sum.split)

lemma self_retry_within_budget:
  "Suc r \<le> max_retries \<Longrightarrow> self_retry r x cd = RetryScheduled (Suc r) cd"
  by (simp add: self_retry_def)

lemma run_job_retry:
  assumes "task_envoyer_sms r db (envs r) cid c = (RetryScheduled r' cd, db', evs)"
  shows "run_job r db envs cid c =
           (run_job r' db' envs cid c)
             \<lparr>executions := Suc (executions (run_job r' db' envs cid c)),
              countdowns := cd # countdowns (run_job r' db' envs cid c),
              hw_events := evs @ hw_events (run_job r' db' envs cid c)\<rparr>"
  using assms by (subst run_job.simps) (simp add: Let_def)

lemma run_job_end:
  assumes "task_envoyer_sms r db (envs r) cid c = (outcome, db', evs)"
    and "\<And>r' cd. outcome \<noteq> RetryScheduled r' cd"
  shows "run_job r db envs cid c =
           \<lparr>executions = 1, countdowns = [], final = outcome, final_db = db', hw_events = evs\<rparr>"
  using assms by (subst run_job.simps) (auto split: attempt.splits)

lemma run_job_db: "final_db (run_job r db envs cid c) = db"
proof (induction r db envs cid c rule: run_job.induct)
  case (1 r db envs cid c)
  obtain outcome db' evs where t: "task_envoyer_sms r db (envs r) cid c = (outcome, db', evs)"
    by (cases "task_envoyer_sms r db (envs r) cid c") auto
  have db': "db' = db"
    using task_db_unchanged [of r db "envs r" cid c] t by simp
  show ?case
  proof (cases outcome)
    case (RetryScheduled r' cd)
    with t have t': "task_envoyer_sms r db (envs r) cid c = (RetryScheduled r' cd, db', evs)"
      by simp
    have "final_db (run_job r' db' envs cid c) = db'"
      using "1.IH" [OF t' [symmetric] refl] by simp
    then show ?thesis
      using run_job_retry [of r db envs cid c r' cd db' evs] t' db' by simp
  next
    case (Returned x)
    then show ?thesis using run_job_end [of r db envs cid c outcome db' evs] t db' by simp
  next
    case (Failed x)
    then show ?thesis using run_job_end [of r db envs cid c outcome db' evs] t db' by simp
  qed
qed

lemma all_rejected_job:
  assumes "Canne_get db cid = Some canne"
    and "\<And>r. fst (envoyer_sms_physique (envs r) (numero_gsm canne) c) = Inr False"
  shows "executions (run_job 0 db envs cid c) = 4"
    and "countdowns (run_job 0 db envs cid c) = [60, 60, 60]"
    and "final (run_job 0 db envs cid c) = Failed GSMEchoue"
proof -
  let ?tr = "\<lambda>r. trace (snd (envoyer_sms_physique (envs r) (numero_gsm canne) c))"
  have t: "task_envoyer_sms r db (envs r) cid c = (self_retry r GSMEchoue 60, db, ?tr r)" for r
    using task_rejected [OF assms(1) assms(2)] .
  have s: "self_retry 0 GSMEchoue 60 = RetryScheduled 1 60"
      "self_retry 1 GSMEchoue 60 = RetryScheduled 2 60"
      "self_retry 2 GSMEchoue 60 = RetryScheduled 3 60"
      "self_retry 3 GSMEchoue 60 = Failed GSMEchoue"
    by (simp_all add: self_retry_def max_retries_def)
  have r3: "run_job 3 db envs cid c =
      \<lparr>executions = 1, countdowns = [], final = Failed GSMEchoue, final_db = db, hw_events = ?tr 3\<rparr>"
    using run_job_end [of 3 db envs cid c "Failed GSMEchoue" db "?tr 3"] t [of 3] s(4) by simp
  have r2: "run_job 2 db envs cid c =
      \<lparr>executions = 2, countdowns = [60], final = Failed GSMEchoue, final_db = db,
       hw_events = ?tr 2 @ ?tr 3\<rparr>"
    using run_job_retry [of 2 db envs cid c 3 60 db "?tr 2"] t [of 2] s(3) r3 by simp
  have r1: "run_job 1 db envs cid c =
      \<lparr>executions = 3, countdowns = [60, 60], final = Failed GSMEchoue, final_db = db,
       hw_events = ?tr 1 @ ?tr 2 @ ?tr 3\<rparr>"
    using run_job_retry [of 1 db envs cid c 2 60 db "?tr 1"] t [of 1] s(2) r2 by simp
  have r0: "run_job 0 db envs cid c =
      \<lparr>executions = 4, countdowns = [60, 60, 60], final = Failed GSMEchoue, final_db = db,
       hw_events = ?tr 0 @ ?tr 1 @ ?tr 2 @ ?tr 3\<rparr>"
    using run_job_retry [of 0 db envs cid c 1 60 db "?tr 0"] t [of 0] s(1) r1 by simp
  show "executions (run_job 0 db envs cid c) = 4"
    and "countdowns (run_job 0 db envs cid c) = [60, 60, 60]"
    and "final (run_job 0 db envs cid c) = Failed GSMEchoue"
    by (simp_all add: r0)
qed

lemma confirmed_at_attempt:
  assumes "Canne_get db cid = Some canne"
    and "r + n \<le> max_retries"
    and "\<forall>j. r \<le> j \<and> j < r + n
           \<longrightarrow> fst (envoyer_sms_physique (envs j) (numero_gsm canne) c) \<noteq> Inr True
             \<and> (\<forall>e. fst (envoyer_sms_physique (envs j) (numero_gsm canne) c) = Inl e
                    \<longrightarrow> isinstance_Exception e)"
    and "fst (envoyer_sms_physique (envs (r + n)) (numero_gsm canne) c) = Inr True"
  shows "final (run_job r db envs cid c) = Returned Status_success
       \<and> executions (run_job r db envs cid c) = Suc n
       \<and> countdowns (run_job r db envs cid c) = replicate n 60"
  using assms(2-4)
proof (induction n arbitrary: r)
  case 0
  then have "fst (envoyer_sms_physique (envs r) (numero_gsm canne) c) = Inr True" by simp
  from task_success [OF assms(1) this, of r]
  show ?case
    using run_job_end [of r db envs cid c "Returned Status_success" db
        "trace (snd (envoyer_sms_physique (envs r) (numero_gsm canne) c))"]
    by simp
next
  case (Suc n)
  have "r \<le> r \<and> r < r + Suc n" by simp
  with Suc.prems(2) have rej: "fst (envoyer_sms_physique (envs r) (numero_gsm canne) c) \<noteq> Inr True"
      "\<forall>e. fst (envoyer_sms_physique (envs r) (numero_gsm canne) c) = Inl e \<longrightarrow> isinstance_Exception e"
    by blast+
  from task_retried [OF assms(1) rej, of r]
  obtain x where t: "task_envoyer_sms r db (envs r) cid c =
           (self_retry r x 60, db, trace (snd (envoyer_sms_physique (envs r) (numero_gsm canne) c)))"
    by blast
  from Suc.prems(1) have "Suc r \<le> max_retries" by simp
  with t have t': "task_envoyer_sms r db (envs r) cid c =
           (RetryScheduled (Suc r) 60, db, trace (snd (envoyer_sms_physique (envs r) (numero_gsm canne) c)))"
    by (simp add: self_retry_within_budget)
  have ih: "final (run_job (Suc r) db envs cid c) = Returned Status_success
       \<and> executions (run_job (Suc r) db envs cid c) = Suc n
       \<and> countdowns (run_job (Suc r) db envs cid c) = replicate n 60"
  proof -
    have p1: "Suc r + n \<le> max_retries"
      using Suc.prems(1) by simp
    have p2: "\<forall>j. Suc r \<le> j \<and> j < Suc r + n
           \<longrightarrow> fst (envoyer_sms_physique (envs j) (numero_gsm canne) c) \<noteq> Inr True
             \<and> (\<forall>e. fst (envoyer_sms_physique (envs j) (numero_gsm canne) c) = Inl e
                    \<longrightarrow> isinstance_Exception e)"
    proof (intro allI impI)
      fix j
      assume "Suc r \<le> j \<and> j < Suc r + n"
      then have "r \<le> j \<and> j < r + Suc n" by simp
      with Suc.prems(2)
      show "fst (envoyer_sms_physique (envs j) (numero_gsm canne) c) \<noteq> Inr True
             \<and> (\<forall>e. fst (envoyer_sms_physique (envs j) (numero_gsm canne) c) = Inl e
                    \<longrightarrow> isinstance_Exception e)"
        by blast
    qed
    have p3: "fst (envoyer_sms_physique (envs (Suc r + n)) (numero_gsm canne) c) = Inr True"
      using Suc.prems(3) by simp
    show ?thesis
      by (rule Suc.IH [OF p1 p2 p3])
  qed
  show ?case
    using run_job_retry [of r db envs cid c "Suc r" 60 db
        "trace (snd (envoyer_sms_physique (envs r) (numero_gsm canne) c))"] t' ih
    by simp
qed

lemma first_attempt_confirmed_job:
  assumes "Canne_get db cid = Some canne"
    and "fst (envoyer_sms_physique (envs 0) (numero_gsm canne) c) = Inr True"
  shows "run_job 0 db envs cid c =
      \<lparr>executions = 1, countdowns = [], final = Returned Status_success, final_db = db,
       hw_events = trace (snd (envoyer_sms_physique (envs 0) (numero_gsm canne) c))\<rparr>"
  using run_job_end [of 0 db envs cid c "Returned Status_success" db
      "trace (snd (envoyer_sms_physique (envs 0) (numero_gsm canne) c))"]
    task_success [OF assms, of 0]
  by simp

lemma scenario_device:
  "Canne_get db_D 1 = Some \<lparr>canne_id = 1, numero_gsm = numero_D, derniere_communication = None\<rparr>"
  "Canne_get db_D 2 = None"
  by (simp_all add: Canne_get_def db_D_def)

lemma scenario_jobs:
  "submit db_D envs_confirm 1 payload_D =
      \<lparr>executions = 1, countdowns = [], final = Returned Status_success, final_db = db_D,
       hw_events = trace (snd (envoyer_sms_physique env_confirm numero_D payload_D))\<rparr>"
  "executions (submit db_D envs_silent 1 payload_D) = 4"
  "final (submit db_D envs_silent 1 payload_D) = Failed GSMEchoue"
  "final_db (submit db_D envs_silent 1 payload_D) = db_D"
  "final (submit db_D envs_late 1 payload_D) = Returned Status_success"
  "executions (submit db_D envs_late 1 payload_D) = 2"
proof -
  show "submit db_D envs_confirm 1 payload_D =
      \<lparr>executions = 1, countdowns = [], final = Returned Status_success, final_db = db_D,
       hw_events = trace (snd (envoyer_sms_physique env_confirm numero_D payload_D))\<rparr>"
    using first_attempt_confirmed_job [of db_D 1 _ envs_confirm payload_D]
      scenario_device(1) scenario_results(1)
    by (simp add: submit_def envs_confirm_def)
  have rej: "fst (envoyer_sms_physique (envs_silent r)
      (numero_gsm \<lparr>canne_id = 1, numero_gsm = numero_D, derniere_communication = None\<rparr>)
      payload_D) = Inr False" for r
    using scenario_results(2) by (simp add: envs_silent_def)
  show "executions (submit db_D envs_silent 1 payload_D) = 4"
    using all_rejected_job(1) [of db_D 1 _ envs_silent payload_D] scenario_device(1) rej
    by (simp add: submit_def)
  show "final (submit db_D envs_silent 1 payload_D) = Failed GSMEchoue"
    using all_rejected_job(3) [of db_D 1 _ envs_silent payload_D] scenario_device(1) rej
    by (simp add: submit_def)
  show "final_db (submit db_D envs_silent 1 payload_D) = db_D"
    by (simp add: submit_def run_job_db)
  have late: "final (run_job 0 db_D envs_late 1 payload_D) = Returned Status_success
       \<and> executions (run_job 0 db_D envs_late 1 payload_D) = Suc 1
       \<and> countdowns (run_job 0 db_D envs_late 1 payload_D) = replicate 1 60"
    using scenario_results(1,2)
    by (intro confirmed_at_attempt [OF scenario_device(1)])
       (auto simp: envs_late_def max_retries_def)
  show "final (submit db_D envs_late 1 payload_D) = Returned Status_success"
    using late by (simp add: submit_def)
  show "executions (submit db_D envs_late 1 payload_D) = 2"
    using late by (simp add: submit_def)
qed

text \<open>
  C2, as the code has it.  With \<open>max_retries = 3\<close> a job whose every attempt is rejected by
  the module is executed four times, the first execution and three retries, and then fails
  with the exception of the last attempt; a fifth execution never runs.  Each of the three
  retries is scheduled with a countdown of 60 seconds.
\<close>

theorem rejected_job_runs_four_times:
  assumes "Canne_get db cid = Some canne"
    and "\<forall>r. fst (envoyer_sms_physique (envs r) (numero_gsm canne) c) = Inr False"
  shows "executions (submit db envs cid c) = 4
       \<and> countdowns (submit db envs cid c) = [60, 60, 60]
       \<and> final (submit db envs cid c) = Failed GSMEchoue"
proof -
  have rej: "fst (envoyer_sms_physique (envs r) (numero_gsm canne) c) = Inr False" for r
    using assms(2) by simp
  show ?thesis
    using all_rejected_job [of db cid canne envs c] assms(1) rej by (simp add: submit_def)
qed

theorem rejected_job_runs_four_times_witness:
  "countdowns (submit db_D envs_silent 1 payload_D) = [60, 60, 60]
   \<and> final (submit db_D envs_silent 1 payload_D) = Failed GSMEchoue"
proof -
  have "\<forall>r. fst (envoyer_sms_physique (envs_silent r)
      (numero_gsm \<lparr>canne_id = 1, numero_gsm = numero_D, derniere_communication = None\<rparr>)
      payload_D) = Inr False"
    using scenario_results(2) by (simp add: envs_silent_def)
  with rejected_job_runs_four_times [of db_D 1 _ envs_silent payload_D] scenario_device(1)
  show ?thesis by simp
qed

text \<open>The claim C2 as stated fails: the job of the scenario, rejected at every attempt, is
  executed a fourth time.\<close>

theorem three_attempts_counterexample:
  "executions (submit db_D envs_silent 1 payload_D) = 4"
  by (rule scenario_jobs(2))

text \<open>
  C6, as the code has it.  When an attempt within the retry budget is confirmed, every
  earlier attempt having failed in a way the task retries, the job ends with the result
  \<open>{'status': 'success'}\<close> after that attempt.  The task writes nothing to the database:
  after any job the database is what it was before, so the device record read back, and with
  it \<open>derniere_communication\<close>, is unchanged.
\<close>

theorem confirmed_job_succeeds_without_timestamp:
  "(\<forall>canne k. Canne_get db cid = Some canne \<and> k \<le> max_retries
        \<and> (\<forall>j<k. fst (envoyer_sms_physique (envs j) (numero_gsm canne) c) \<noteq> Inr True
                  \<and> (\<forall>e. fst (envoyer_sms_physique (envs j) (numero_gsm canne) c) = Inl e
                         \<longrightarrow> isinstance_Exception e))
        \<and> fst (envoyer_sms_physique (envs k) (numero_gsm canne) c) = Inr True
      \<longrightarrow> final (submit db envs cid c) = Returned Status_success
        \<and> executions (submit db envs cid c) = Suc k)
   \<and> final_db (submit db envs cid c) = db
   \<and> Canne_get (final_db (submit db envs cid c)) cid = Canne_get db cid"
proof (intro conjI allI impI)
  fix canne k
  assume h: "Canne_get db cid = Some canne \<and> k \<le> max_retries
        \<and> (\<forall>j<k. fst (envoyer_sms_physique (envs j) (numero_gsm canne) c) \<noteq> Inr True
                  \<and> (\<forall>e. fst (envoyer_sms_physique (envs j) (numero_gsm canne) c) = Inl e
                         \<longrightarrow> isinstance_Exception e))
        \<and> fst (envoyer_sms_physique (envs k) (numero_gsm canne) c) = Inr True"
  then have "final (run_job 0 db envs cid c) = Returned Status_success
       \<and> executions (run_job 0 db envs cid c) = Suc k
       \<and> countdowns (run_job 0 db envs cid c) = replicate k 60"
    by (intro confirmed_at_attempt [of db cid canne 0 k envs c]) simp_all
  then show "final (submit db envs cid c) = Returned Status_success"
    and "executions (submit db envs cid c) = Suc k"
    by (simp_all add: submit_def)
next
  show "final_db (submit db envs cid c) = db"
    by (simp add: submit_def run_job_db)
  then show "Canne_get (final_db (submit db envs cid c)) cid = Canne_get db cid"
    by simp
qed

theorem confirmed_job_succeeds_without_timestamp_witness:
  "final (submit db_D envs_late 1 payload_D) = Returned Status_success
   \<and> executions (submit db_D envs_late 1 payload_D) = 2
   \<and> final_db (submit db_D envs_late 1 payload_D) = db_D"
proof -
  have "Canne_get db_D 1 = Some \<lparr>canne_id = 1, numero_gsm = numero_D, derniere_communication = None\<rparr>
        \<and> 1 \<le> max_retries
        \<and> (\<forall>j<1. fst (envoyer_sms_physique (envs_late j)
              (numero_gsm \<lparr>canne_id = 1, numero_gsm = numero_D, derniere_communication = None\<rparr>)
              payload_D) \<noteq> Inr True
                  \<and> (\<forall>e. fst (envoyer_sms_physique (envs_late j)
              (numero_gsm \<lparr>canne_id = 1, numero_gsm = numero_D, derniere_communication = None\<rparr>)
              payload_D) = Inl e \<longrightarrow> isinstance_Exception e))
        \<and> fst (envoyer_sms_physique (envs_late 1)
              (numero_gsm \<lparr>canne_id = 1, numero_gsm = numero_D, derniere_communication = None\<rparr>)
              payload_D) = Inr True"
    using scenario_device(1) scenario_results(1,2)
    by (simp add: envs_late_def max_retries_def)
  note h = this
  note t = confirmed_job_succeeds_without_timestamp [of db_D 1 envs_late payload_D]
  from t [THEN conjunct1, rule_format, OF h]
  have "final (submit db_D envs_late 1 payload_D) = Returned Status_success
        \<and> executions (submit db_D envs_late 1 payload_D) = 2"
    by simp
  moreover from t [THEN conjunct2, THEN conjunct1]
  have "final_db (submit db_D envs_late 1 payload_D) = db_D" .
  ultimately show ?thesis by simp
qed

text \<open>The claim C6 as stated fails: after the confirmed job of the scenario the device,
  which had never communicated, still has no last-contact timestamp.\<close>

theorem timestamp_counterexample:
  "final (submit db_D envs_confirm 1 payload_D) = Returned Status_success
   \<and> map derniere_communication (cannes (final_db (submit db_D envs_confirm 1 payload_D))) = [None]"
  unfolding scenario_jobs(1) by (simp add: db_D_def)

text \<open>
  C7 at two inputs.  The job of the scenario that is confirmed at the first attempt and the
  job that is rejected four times both end with the table of \<open>SMSLog\<close> rows empty: no entry
  is created, neither pending nor final.
\<close>

theorem no_exchange_log_entry:
  "final (submit db_D envs_confirm 1 payload_D) = Returned Status_success
   \<and> sms_logs (final_db (submit db_D envs_confirm 1 payload_D)) = []
   \<and> final (submit db_D envs_silent 1 payload_D) = Failed GSMEchoue
   \<and> sms_logs (final_db (submit db_D envs_silent 1 payload_D)) = []"
  unfolding scenario_jobs by (simp add: db_D_def)

text \<open>
  C8.  A job for a device identifier that matches no device runs once, returns
  \<open>{'status': 'failed', 'reason': 'not_found'}\<close>, schedules no retry, does not touch the
  hardware and leaves the database unchanged, whatever the hardware would have done.
\<close>

theorem unknown_device_not_retried:
  assumes "Canne_get db cid = None"
  shows "submit db envs cid c =
           \<lparr>executions = 1, countdowns = [], final = Returned Status_failed_not_found,
            final_db = db, hw_events = []\<rparr>"
  using run_job_end [of 0 db envs cid c "Returned Status_failed_not_found" db "[]"]
    task_not_found [OF assms, of 0 "envs 0" c]
  by (simp add: submit_def)

theorem unknown_device_not_retried_witness:
  "submit db_D envs_silent 2 payload_D =
           \<lparr>executions = 1, countdowns = [], final = Returned Status_failed_not_found,
            final_db = db_D, hw_events = []\<rparr>"
  using unknown_device_not_retried [of db_D 2 envs_silent payload_D] scenario_device(2)
  by simp


section \<open>Properties of the slot allocation\<close>

lemma range_1_6: "[1..5] = [1, 2, 3, 4, 5 :: int]"
  by (simp add: upto_rec1)




lemma register_unsendable_number:
  assumes "Canne_get db cid = Some canne"
    and "\<not> list_ex (\<lambda>c. contact_canne c = cid \<and> telephone c = tel) (contacts db)"
    and "\<not> pg_param tel"
  shows "register_contact_post db nom_req cid role tel = (Response 500 ServerError, db)"
  using assms Canne_get_id [OF assms(1)]
  by (simp add: register_contact_post_def Let_def)

lemma unsendable_number_not_stored:
  assumes "stored_numbers_ok db" and "\<not> pg_param tel"
  shows "\<not> list_ex (\<lambda>c. contact_canne c = cid \<and> telephone c = tel) (contacts db)"
  using assms by (auto simp: stored_numbers_ok_def list_all_iff list_ex_iff)

lemma register_reaches_allocation:
  assumes "Canne_get db cid = Some canne"
    and "\<not> list_ex (\<lambda>c. contact_canne c = cid \<and> telephone c = tel) (contacts db)"
    and "pg_param tel"
  shows "register_contact_post db nom_req cid role tel =
     (case index_libre (indices_of db cid) of
        None \<Rightarrow> (Response 400 (Detail MemoirePleine), db)
      | Some i \<Rightarrow>
          (case nom_of_request nom_req of
             None \<Rightarrow> (Response 500 ServerError, db)
           | Some n \<Rightarrow>
               if \<not> row_accepted (nom_of_request nom_req) tel role
               then (Response 500 ServerError, db)
               else
                 (let new = \<lparr>contact_id = next_contact_id db, contact_canne = cid, nom = n,
                             telephone = tel, type_contact = role,
                             id_microcontroleur = Some i, synchro_avec_canne = True\<rparr>
                  in (Response 201 (Registered (contact_id new) i),
                      db\<lparr>contacts := contacts db @ [new],
                         next_contact_id := next_contact_id db + 1\<rparr>))))"
  using assms Canne_get_id [OF assms(1)]
  by (simp add: register_contact_post_def Contact_create_def indices_of_def Let_def
      split: option.split)

lemma register_refused_by_database:
  assumes "Canne_get db cid = Some canne"
    and "\<not> list_ex (\<lambda>c. contact_canne c = cid \<and> telephone c = tel) (contacts db)"
    and "pg_param tel"
    and "index_libre (indices_of db cid) = Some i"
    and "\<not> row_accepted (nom_of_request nom_req) tel role"
  shows "register_contact_post db nom_req cid role tel = (Response 500 ServerError, db)"
  using register_reaches_allocation [OF assms(1,2,3), of nom_req role] assms(4,5)
  by (auto simp: row_accepted_def split: option.splits)

lemma register_stores:
  assumes "Canne_get db cid = Some canne"
    and "\<not> list_ex (\<lambda>c. contact_canne c = cid \<and> telephone c = tel) (contacts db)"
    and "pg_param tel"
    and "index_libre (indices_of db cid) = Some i"
    and "row_accepted (nom_of_request nom_req) tel role"
  shows "\<exists>n. nom_of_request nom_req = Some n
           \<and> register_contact_post db nom_req cid role tel =
               (Response 201 (Registered (next_contact_id db) i),
                db\<lparr>contacts := contacts db @
                       [\<lparr>contact_id = next_contact_id db, contact_canne = cid, nom = n,
                         telephone = tel, type_contact = role,
                         id_microcontroleur = Some i, synchro_avec_canne = True\<rparr>],
                   next_contact_id := next_contact_id db + 1\<rparr>)"
proof -
  from assms(5) obtain n where n: "nom_of_request nom_req = Some n"
    by (cases "nom_of_request nom_req") (auto simp: row_accepted_def)
  with register_reaches_allocation [OF assms(1,2,3), of nom_req role] assms(4,5)
  show ?thesis by (simp add: Let_def)
qed

lemma register_duplicate:
  assumes "Canne_get db cid = Some canne"
    and "list_ex (\<lambda>c. contact_canne c = cid \<and> telephone c = tel) (contacts db)"
  shows "register_contact_post db nom_req cid role tel =
           (Response 400 (Detail ContactExisteDeja), db)"
  using assms Canne_get_id [OF assms(1)]
  by (simp add: register_contact_post_def Let_def)

lemma register_outcomes:
  "snd (register_contact_post db nom_req cid role tel) = db
   \<or> (\<exists>canne i n. Canne_get db cid = Some canne
          \<and> \<not> list_ex (\<lambda>c. contact_canne c = cid \<and> telephone c = tel) (contacts db)
          \<and> pg_param tel
          \<and> index_libre (indices_of db cid) = Some i
          \<and> snd (register_contact_post db nom_req cid role tel) =
              db\<lparr>contacts := contacts db @
                     [\<lparr>contact_id = next_contact_id db, contact_canne = cid, nom = n,
                       telephone = tel, type_contact = role,
                       id_microcontroleur = Some i, synchro_avec_canne = True\<rparr>],
                 next_contact_id := next_contact_id db + 1\<rparr>)"
proof (cases "Canne_get db cid")
  case None
  then show ?thesis by (simp add: register_contact_post_def)
next
  case (Some canne)
  show ?thesis
  proof (cases "list_ex (\<lambda>c. contact_canne c = cid \<and> telephone c = tel) (contacts db)")
    case True
    then show ?thesis using register_duplicate [OF Some True] by simp
  next
    case False
    show ?thesis
    proof (cases "pg_param tel")
      case unsendable: False
      from register_unsendable_number [OF Some False unsendable]
      show ?thesis by simp
    next
      case sendable: True
      show ?thesis
      proof (cases "index_libre (indices_of db cid)")
        case None
        then show ?thesis
          using register_reaches_allocation [OF Some False sendable, of nom_req role] by simp
      next
        case found: (Some i)
        show ?thesis
        proof (cases "row_accepted (nom_of_request nom_req) tel role")
          case True
          from register_stores [OF Some False sendable found True]
          show ?thesis using Some False sendable found by auto
        next
          case no: False
          from register_refused_by_database [OF Some False sendable found no]
          show ?thesis by simp
        qed
      qed
    qed
  qed
qed

lemma register_keeps_unique:
  assumes "unique_together db"
  shows "unique_together (snd (register_contact_post db nom_req cid role tel))"
  using register_outcomes [of db nom_req cid role tel] assms
  by (auto simp: unique_together_def list_ex_iff)

lemma delete_keeps_unique:
  assumes "unique_together db"
  shows "unique_together (snd (delete_contact_post db cid pk role))"
  using assms
  by (auto simp: delete_contact_post_def unique_together_def Let_def distinct_map_filter
      split: option.split)

lemma scenario_slots:
  "Canne_get db_full 1 = Some \<lparr>canne_id = 1, numero_gsm = numero_D, derniere_communication = None\<rparr>"
  "indices_of db_full 1 = [Some 1, Some 2, Some 3, Some 4, Some 5]"
  "\<not> list_ex (\<lambda>c. contact_canne c = 1 \<and> telephone c = ascii ''+237600000006'') (contacts db_full)"
  "list_ex (\<lambda>c. contact_canne c = 1 \<and> telephone c = ascii ''+237600000001'') (contacts db_full)"
  "unique_together db_full"
  by (simp_all add: db_full_def db_D_def Canne_get_def indices_of_def contact_of_D_def
      unique_together_def ascii_def)




lemma register_keeps_stored_numbers:
  assumes "stored_numbers_ok db"
  shows "stored_numbers_ok (snd (register_contact_post db nom_req cid role tel))"
proof -
  from register_outcomes [of db nom_req cid role tel]
  show ?thesis
  proof
    assume "snd (register_contact_post db nom_req cid role tel) = db"
    with assms show ?thesis by simp
  next
    assume "\<exists>canne i n. Canne_get db cid = Some canne
          \<and> \<not> list_ex (\<lambda>c. contact_canne c = cid \<and> telephone c = tel) (contacts db)
          \<and> pg_param tel
          \<and> index_libre (indices_of db cid) = Some i
          \<and> snd (register_contact_post db nom_req cid role tel) =
              db\<lparr>contacts := contacts db @
                     [\<lparr>contact_id = next_contact_id db, contact_canne = cid, nom = n,
                       telephone = tel, type_contact = role,
                       id_microcontroleur = Some i, synchro_avec_canne = True\<rparr>],
                 next_contact_id := next_contact_id db + 1\<rparr>"
    then obtain i n where "pg_param tel"
      and r: "snd (register_contact_post db nom_req cid role tel) =
              db\<lparr>contacts := contacts db @
                     [\<lparr>contact_id = next_contact_id db, contact_canne = cid, nom = n,
                       telephone = tel, type_contact = role,
                       id_microcontroleur = Some i, synchro_avec_canne = True\<rparr>],
                 next_contact_id := next_contact_id db + 1\<rparr>"
      by blast
    with assms show ?thesis
      by (simp add: r stored_numbers_ok_def)
  qed
qed











text \<open>
  C9.  For a known device that already has a contact with the requested phone number, the
  registration is refused with the duplicate answer before any index is looked for: the
  database is unchanged.  Whatever the request, a contact table in which the pairs of
  device and phone number are unique is still so after the registration.
\<close>

theorem duplicate_contact_refused:
  "(Canne_get db cid = Some canne
      \<and> (\<exists>c\<in>set (contacts db). contact_canne c = cid \<and> telephone c = tel)
      \<longrightarrow> register_contact_post db nom_req cid role tel
            = (Response 400 (Detail ContactExisteDeja), db))
   \<and> (unique_together db
      \<longrightarrow> unique_together (snd (register_contact_post db nom_req cid role tel)))"
proof (intro conjI impI)
  assume h: "Canne_get db cid = Some canne
      \<and> (\<exists>c\<in>set (contacts db). contact_canne c = cid \<and> telephone c = tel)"
  then have "list_ex (\<lambda>c. contact_canne c = cid \<and> telephone c = tel) (contacts db)"
    by (simp add: list_ex_iff)
  with h show "register_contact_post db nom_req cid role tel
            = (Response 400 (Detail ContactExisteDeja), db)"
    using register_duplicate by blast
next
  assume "unique_together db"
  then show "unique_together (snd (register_contact_post db nom_req cid role tel))"
    by (rule register_keeps_unique)
qed

theorem duplicate_contact_refused_witness:
  "register_contact_post db_full NomAbsent 1 (ascii ''AMI'') (ascii ''+237600000001'')
     = (Response 400 (Detail ContactExisteDeja), db_full)
   \<and> unique_together
        (snd (register_contact_post db_released NomAbsent 1 (ascii ''AMI'') (ascii ''+237600000006'')))"
proof -
  have "\<exists>c\<in>set (contacts db_full). contact_canne c = 1 \<and> telephone c = ascii ''+237600000001''"
    using scenario_slots(4) by (simp add: list_ex_iff)
  with duplicate_contact_refused [of db_full 1 _ "ascii ''+237600000001''" NomAbsent "ascii ''AMI''"]
    scenario_slots(1)
  have a: "register_contact_post db_full NomAbsent 1 (ascii ''AMI'') (ascii ''+237600000001'')
     = (Response 400 (Detail ContactExisteDeja), db_full)"
    by blast
  have "unique_together db_released"
    using delete_keeps_unique [OF scenario_slots(5), of 1 3 "ascii ''SUPER_ADMIN''"]
    by (simp add: db_released_def)
  with duplicate_contact_refused [of db_released 1 _ "ascii ''+237600000006''" NomAbsent "ascii ''AMI''"]
  have "unique_together
        (snd (register_contact_post db_released NomAbsent 1 (ascii ''AMI'') (ascii ''+237600000006'')))"
    by blast
  with a show ?thesis by blast
qed

end
